theory Spec2Isabelle
  imports Complex_Main
begin

section \<open>The Self-Organizing Orrery map of SOO.ipynb\<close>

text \<open>
  The notebook defines the class \<open>SOOMap\<close> (cells 2 and 3). Its weights and coordinates
  are torch tensors of 32-bit floats, and \<open>calc_convergence\<close> works on their numpy
  arrays. A tensor entry is the \<^typ>\<open>real\<close> number that a finite float denotes; the two
  zeros of the format are the one number 0.

  Rounding is modelled where a property depends on the value that is written or
  compared: the two update rules compute in binary32 (round to nearest, ties to even,
  overflow to infinity), and so do numpy's \<open>mean\<close> and \<open>var\<close>. The results of such
  operations are values of \<open>flt\<close>, which has the infinities and NaN. The distances of
  the default metric and of the neighbour selection, the scalar test of the
  convergence metric (float32 or float64, by the promotion rules of the numpy at hand)
  and the decay (Python floats) are computed without rounding on the numbers involved.

  A one-dimensional tensor is a list, a two-dimensional one a list of rows. Indices are
  the non-negative integers that \<open>find_bmu\<close> and \<open>torch.where\<close> produce; Python's
  negative (wrap-around) indices are excluded by the type \<^typ>\<open>nat\<close>. A tensor with no
  rows does not record its column count.

  A Python exception is a value of \<open>error\<close>. A method of the class takes the map and
  returns the pair of its outcome (\<open>Inl\<close> the exception, \<open>Inr\<close> the returned value) and
  the map as the call leaves it. \<open>NonFinite\<close> is no exception of the code: it marks a
  run in which an update rule computes an infinity or NaN. The code then goes on with
  that entry in the tensor; the tensors of the model hold finite numbers only, so the
  model ends the run there, with the map as it was before the row is written, and says
  nothing about the map from then on.
\<close>

datatype error = IndexError | RuntimeError | ZeroDivisionError | ValueError | NonFinite

type_synonym vec = "real list"
type_synonym tensor2 = "real list list"

subsection \<open>Floating-point values and binary32 arithmetic\<close>

text \<open>A float: a finite number, plus or minus infinity, or NaN.\<close>

datatype flt = Fin real | PInf | NInf | NaN

text \<open>The number of binary digits of a natural number.\<close>

fun bit_length :: "nat \<Rightarrow> nat" where
  "bit_length n = (if n = 0 then 0 else Suc (bit_length (n div 2)))"

text \<open>The binary exponent of a positive number \<open>a\<close>: \<open>2 ^ e \<le> a < 2 ^ (e + 1)\<close>.\<close>

definition exponent :: "real \<Rightarrow> int" where
  "exponent a =
     (if 1 \<le> a then int (bit_length (nat \<lfloor>a\<rfloor>)) - 1
      else - int (bit_length (nat \<lceil>1 / a\<rceil> - 1)))"

text \<open>The nearest integer, a tie going to the even one.\<close>

definition round_half_even :: "real \<Rightarrow> int" where
  "round_half_even q =
     (let f = \<lfloor>q\<rfloor>; d = q - of_int f
      in if d < 1 / 2 then f else if 1 / 2 < d then f + 1 else if even f then f else f + 1)"

text \<open>
  Rounding to binary32: 24 significant bits, exponents from -126 (below it the
  subnormal numbers, multiples of \<open>2 ^ -149\<close>) to 127; a result of magnitude \<open>2 ^ 128\<close>
  or more is an infinity.
\<close>

definition round32 :: "real \<Rightarrow> flt" where
  "round32 x =
     (if x = 0 then Fin 0
      else
        (let e = max (exponent \<bar>x\<bar>) (- 126);
             ulp = 2 powi (e - 23);
             y = of_int (round_half_even (x / ulp)) * ulp
         in if 2 ^ 128 \<le> y then PInf else if y \<le> - (2 ^ 128) then NInf else Fin y))"

text \<open>
  The operations of IEEE 754 on these values; \<open>rnd\<close> rounds the exact result of two
  finite operands (\<open>round32\<close> for binary32, \<open>Fin\<close> for no rounding). A zero divisor is
  the positive zero.
\<close>

fun fl_neg :: "flt \<Rightarrow> flt" where
  "fl_neg (Fin a) = Fin (- a)"
| "fl_neg PInf = NInf"
| "fl_neg NInf = PInf"
| "fl_neg NaN = NaN"

fun fl_add :: "(real \<Rightarrow> flt) \<Rightarrow> flt \<Rightarrow> flt \<Rightarrow> flt" where
  "fl_add rnd NaN b = NaN"
| "fl_add rnd a NaN = NaN"
| "fl_add rnd (Fin a) (Fin b) = rnd (a + b)"
| "fl_add rnd PInf NInf = NaN"
| "fl_add rnd NInf PInf = NaN"
| "fl_add rnd PInf b = PInf"
| "fl_add rnd NInf b = NInf"
| "fl_add rnd (Fin a) b = b"

definition fl_sub :: "(real \<Rightarrow> flt) \<Rightarrow> flt \<Rightarrow> flt \<Rightarrow> flt" where
  "fl_sub rnd a b = fl_add rnd a (fl_neg b)"

text \<open>An infinity of the sign of the number \<open>s\<close>; NaN for \<open>s = 0\<close>.\<close>

definition inf_of_sign :: "real \<Rightarrow> flt" where
  "inf_of_sign s = (if 0 < s then PInf else if s < 0 then NInf else NaN)"

fun fl_mul :: "(real \<Rightarrow> flt) \<Rightarrow> flt \<Rightarrow> flt \<Rightarrow> flt" where
  "fl_mul rnd NaN b = NaN"
| "fl_mul rnd a NaN = NaN"
| "fl_mul rnd (Fin a) (Fin b) = rnd (a * b)"
| "fl_mul rnd PInf (Fin b) = inf_of_sign b"
| "fl_mul rnd NInf (Fin b) = inf_of_sign (- b)"
| "fl_mul rnd (Fin a) PInf = inf_of_sign a"
| "fl_mul rnd (Fin a) NInf = inf_of_sign (- a)"
| "fl_mul rnd PInf PInf = PInf"
| "fl_mul rnd NInf NInf = PInf"
| "fl_mul rnd PInf NInf = NInf"
| "fl_mul rnd NInf PInf = NInf"

fun fl_div :: "(real \<Rightarrow> flt) \<Rightarrow> flt \<Rightarrow> flt \<Rightarrow> flt" where
  "fl_div rnd NaN b = NaN"
| "fl_div rnd a NaN = NaN"
| "fl_div rnd (Fin a) (Fin b) = (if b = 0 then inf_of_sign a else rnd (a / b))"
| "fl_div rnd (Fin a) b = Fin 0"
| "fl_div rnd PInf (Fin b) = (if b < 0 then NInf else PInf)"
| "fl_div rnd NInf (Fin b) = (if b < 0 then PInf else NInf)"
| "fl_div rnd a b = NaN"

fun fl_abs :: "flt \<Rightarrow> flt" where
  "fl_abs (Fin a) = Fin \<bar>a\<bar>"
| "fl_abs PInf = PInf"
| "fl_abs NInf = PInf"
| "fl_abs NaN = NaN"

fun fl_sqrt :: "(real \<Rightarrow> flt) \<Rightarrow> flt \<Rightarrow> flt" where
  "fl_sqrt rnd (Fin a) = (if a < 0 then NaN else rnd (sqrt a))"
| "fl_sqrt rnd PInf = PInf"
| "fl_sqrt rnd NInf = NaN"
| "fl_sqrt rnd NaN = NaN"

text \<open>The comparisons \<open><=\<close> and \<open><\<close>: false when an operand is NaN.\<close>

fun fl_le :: "flt \<Rightarrow> flt \<Rightarrow> bool" where
  "fl_le NaN b = False"
| "fl_le a NaN = False"
| "fl_le (Fin a) (Fin b) = (a \<le> b)"
| "fl_le NInf b = True"
| "fl_le a PInf = True"
| "fl_le a b = False"

fun fl_less :: "flt \<Rightarrow> flt \<Rightarrow> bool" where
  "fl_less NaN b = False"
| "fl_less a NaN = False"
| "fl_less (Fin a) (Fin b) = (a < b)"
| "fl_less PInf b = False"
| "fl_less a NInf = False"
| "fl_less a b = True"

text \<open>
  The finite entries of a computed row; \<open>NonFinite\<close> when an entry is an infinity or
  NaN.
\<close>

fun finite_row :: "flt list \<Rightarrow> error + real list" where
  "finite_row [] = Inr []"
| "finite_row (Fin v # fs) =
     (case finite_row fs of Inl e \<Rightarrow> Inl e | Inr vs \<Rightarrow> Inr (v # vs))"
| "finite_row (f # fs) = Inl NonFinite"

subsection \<open>Tensor operations of torch used by the class\<close>

text \<open>
  Broadcasting of two one-dimensional shapes: equal lengths, or one of them 1;
  anything else is torch's RuntimeError (shape mismatch).
\<close>

definition broadcast_len :: "nat \<Rightarrow> nat \<Rightarrow> error + nat" where
  "broadcast_len a b =
     (if a = b then Inr a
      else if a = 1 then Inr b
      else if b = 1 then Inr a
      else Inl RuntimeError)"

definition expand :: "nat \<Rightarrow> vec \<Rightarrow> vec" where
  "expand n v = (if length v = n then v else replicate n (v ! 0))"

text \<open>\<open>a - b\<close> on one-dimensional tensors, as the distances use it.\<close>

definition vsub :: "vec \<Rightarrow> vec \<Rightarrow> error + vec" where
  "vsub a b =
     (case broadcast_len (length a) (length b) of
        Inl e \<Rightarrow> Inl e
      | Inr n \<Rightarrow> Inr (map2 (-) (expand n a) (expand n b)))"

text \<open>
  The same three operations as the update rules run them, on float32 tensors: \<open>a - b\<close>
  with broadcasting, \<open>lr * t\<close> for a Python float \<open>lr\<close> (converted to float32 for the
  product), and \<open>a += b\<close> on a one-dimensional \<open>a\<close>, where the result must have the
  shape of \<open>a\<close>, so that \<open>b\<close> has the length of \<open>a\<close> or length 1. Each entry is one
  binary32 operation.
\<close>

definition f32_sub :: "vec \<Rightarrow> vec \<Rightarrow> error + flt list" where
  "f32_sub a b =
     (case broadcast_len (length a) (length b) of
        Inl e \<Rightarrow> Inl e
      | Inr n \<Rightarrow>
          Inr (map2 (\<lambda>u v. fl_sub round32 (Fin u) (Fin v)) (expand n a) (expand n b)))"

definition f32_scale :: "real \<Rightarrow> flt list \<Rightarrow> flt list" where
  "f32_scale lr t = map (fl_mul round32 (round32 lr)) t"

definition f32_iadd :: "vec \<Rightarrow> flt list \<Rightarrow> error + flt list" where
  "f32_iadd a b =
     (if length b = length a then Inr (map2 (\<lambda>u d. fl_add round32 (Fin u) d) a b)
      else if length b = 1 then Inr (map (\<lambda>u. fl_add round32 (Fin u) (b ! 0)) a)
      else Inl RuntimeError)"

text \<open>The outcomes of a list of computations, stopping at the first exception.\<close>

fun sequence :: "(error + 'a) list \<Rightarrow> error + 'a list" where
  "sequence [] = Inr []"
| "sequence (r # rs) =
     (case r of
        Inl e \<Rightarrow> Inl e
      | Inr v \<Rightarrow> (case sequence rs of Inl e \<Rightarrow> Inl e | Inr vs \<Rightarrow> Inr (v # vs)))"

text \<open>\<open>w - x\<close> for a two-dimensional \<open>w\<close> and a one-dimensional \<open>x\<close>: row by row.\<close>

definition msub :: "tensor2 \<Rightarrow> vec \<Rightarrow> error + tensor2" where
  "msub w x = sequence (map (\<lambda>row. vsub row x) w)"

text \<open>
  The default metric of \<open>__init__\<close>:
  \<^verbatim>\<open>lambda w, x: torch.sum((w - x) ** 2, dim=1)\<close>
\<close>

definition euclidean_sq :: "tensor2 \<Rightarrow> vec \<Rightarrow> error + vec" where
  "euclidean_sq w x =
     (case msub w x of
        Inl e \<Rightarrow> Inl e
      | Inr d \<Rightarrow> Inr (map (\<lambda>row. sum_list (map (\<lambda>a. a ^ 2) row)) d))"

text \<open>
  \<open>torch.argmin\<close> on a one-dimensional tensor: the index of the first minimal value;
  an exception on a tensor with no elements. The scan keeps the best index and value
  seen so far and replaces them only by a strictly smaller value.
\<close>

fun argmin_scan :: "nat \<Rightarrow> real \<Rightarrow> nat \<Rightarrow> real list \<Rightarrow> nat" where
  "argmin_scan best bv i [] = best"
| "argmin_scan best bv i (d # ds) =
     (if d < bv then argmin_scan i d (Suc i) ds else argmin_scan best bv (Suc i) ds)"

definition argmin :: "real list \<Rightarrow> error + nat" where
  "argmin dists =
     (case dists of
        [] \<Rightarrow> Inl IndexError
      | d # ds \<Rightarrow> Inr (argmin_scan 0 d 1 ds))"

subsection \<open>The map\<close>

text \<open>The fields that \<open>__init__\<close> sets (the torch device apart).\<close>

record soo_map =
  num_nodes :: nat
  input_dim :: nat
  weights :: tensor2
  coordinates :: tensor2
  initial_lr :: real
  current_lr :: real
  initial_radius :: real
  current_radius :: real
  distance_metric :: "tensor2 \<Rightarrow> vec \<Rightarrow> error + vec"
  last_cv :: real

text \<open>
  \<open>__init__\<close>. The draws of \<open>torch.randn(num_nodes, input_dim)\<close> and
  \<open>torch.rand(num_nodes, 3)\<close> are the arguments \<open>randn\<close> and \<open>rand\<close>.
\<close>

definition init :: "nat \<Rightarrow> nat \<Rightarrow> real \<Rightarrow> real \<Rightarrow> real \<Rightarrow> real \<Rightarrow>
    (tensor2 \<Rightarrow> vec \<Rightarrow> error + vec) option \<Rightarrow> tensor2 \<Rightarrow> tensor2 \<Rightarrow> soo_map" where
  "init n_nodes in_dim init_weight_scale init_coord_range learning_rate neighbor_radius
      metric randn rand =
     \<lparr> num_nodes = n_nodes,
       input_dim = in_dim,
       weights = map (map (\<lambda>v. v * init_weight_scale)) randn,
       coordinates = map (map (\<lambda>v. v * init_coord_range)) rand,
       initial_lr = learning_rate,
       current_lr = learning_rate,
       initial_radius = neighbor_radius,
       current_radius = neighbor_radius,
       distance_metric = (case metric of None \<Rightarrow> euclidean_sq | Some m \<Rightarrow> m),
       last_cv = 0 \<rparr>"

text \<open>
  \<open>find_bmu\<close>. The argument is a one-dimensional tensor, so the \<open>x.view(-1)\<close> branch
  is not taken.
\<close>

definition find_bmu :: "soo_map \<Rightarrow> vec \<Rightarrow> (error + nat) \<times> soo_map" where
  "find_bmu st x =
     (case distance_metric st (weights st) x of
        Inl e \<Rightarrow> (Inl e, st)
      | Inr dists \<Rightarrow> (argmin dists, st))"

text \<open>
  \<open>update_weights\<close>:
  \<^verbatim>\<open>self.weights[bmu_idx] += lr * (x - self.weights[bmu_idx])\<close>
  Every exception is raised before the row is written.
\<close>

definition update_weights :: "soo_map \<Rightarrow> nat \<Rightarrow> vec \<Rightarrow> real \<Rightarrow> (error + unit) \<times> soo_map" where
  "update_weights st bmu_idx x lr =
     (if length (weights st) \<le> bmu_idx then (Inl IndexError, st)
      else
        (case f32_sub x (weights st ! bmu_idx) of
           Inl e \<Rightarrow> (Inl e, st)
         | Inr d \<Rightarrow>
             (case f32_iadd (weights st ! bmu_idx) (f32_scale lr d) of
                Inl e \<Rightarrow> (Inl e, st)
              | Inr r \<Rightarrow>
                  (case finite_row r of
                     Inl e \<Rightarrow> (Inl e, st)
                   | Inr w' \<Rightarrow> (Inr (), st\<lparr>weights := (weights st)[bmu_idx := w']\<rparr>)))))"

text \<open>
  \<open>update_coordinates\<close>. \<open>bmu_coord = self.coordinates[bmu_idx]\<close> is a view of the
  tensor, not a copy: every pass of the loop reads the BMU's row as it is then. An
  exception in a later pass leaves the rows written by the earlier ones.
\<close>

fun update_coordinates_loop ::
    "nat \<Rightarrow> real \<Rightarrow> nat list \<Rightarrow> tensor2 \<Rightarrow> (error + unit) \<times> tensor2" where
  "update_coordinates_loop bmu_idx coord_lr [] cs = (Inr (), cs)"
| "update_coordinates_loop bmu_idx coord_lr (ni # nis) cs =
     (if length cs \<le> ni then (Inl IndexError, cs)
      else
        (case f32_sub (cs ! bmu_idx) (cs ! ni) of
           Inl e \<Rightarrow> (Inl e, cs)
         | Inr d \<Rightarrow>
             (case f32_iadd (cs ! ni) (f32_scale coord_lr d) of
                Inl e \<Rightarrow> (Inl e, cs)
              | Inr r \<Rightarrow>
                  (case finite_row r of
                     Inl e \<Rightarrow> (Inl e, cs)
                   | Inr c' \<Rightarrow> update_coordinates_loop bmu_idx coord_lr nis (cs[ni := c'])))))"

definition update_coordinates ::
    "soo_map \<Rightarrow> nat \<Rightarrow> nat list \<Rightarrow> real \<Rightarrow> (error + unit) \<times> soo_map" where
  "update_coordinates st bmu_idx neighbor_indices coord_lr =
     (if length (coordinates st) \<le> bmu_idx then (Inl IndexError, st)
      else
        (case update_coordinates_loop bmu_idx coord_lr neighbor_indices (coordinates st) of
           (r, cs) \<Rightarrow> (r, st\<lparr>coordinates := cs\<rparr>)))"

subsection \<open>The convergence metric\<close>

text \<open>
  Column \<open>d\<close> of a two-dimensional array, as the loop reads it through
  \<open>data_means[d]\<close> and \<open>neuron_means[d]\<close>: an IndexError when the array has no
  such column. An array with no rows has every column, each of them empty: so it is
  for the weights of a map without nodes and for a reference of shape \<open>(0, D)\<close>. (For
  the Python list \<open>[]\<close> numpy builds an array of one dimension, and the code raises
  IndexError at the first feature; the properties of short references below are stated
  for references with a row.)
\<close>

definition column :: "nat \<Rightarrow> tensor2 \<Rightarrow> error + vec" where
  "column d rows =
     (if list_ex (\<lambda>r. length r \<le> d) rows then Inl IndexError
      else Inr (map (\<lambda>r. r ! d) rows))"

text \<open>
  numpy's sum of a float32 array, one binary32 addition per entry, in the order of the
  entries.
\<close>

definition fl_sum :: "flt list \<Rightarrow> flt" where
  "fl_sum fs = foldl (fl_add round32) (Fin 0) fs"

text \<open>
  numpy's \<open>mean\<close> of one float32 column: the sum divided by the count; NaN (a warning,
  no exception) on an empty column.
\<close>

definition np_mean :: "vec \<Rightarrow> flt" where
  "np_mean xs = fl_div round32 (fl_sum (map Fin xs)) (round32 (real (length xs)))"

text \<open>
  numpy's \<open>var\<close> with \<open>ddof=1\<close> of one float32 column: the deviations from the mean,
  squared, summed and divided by \<open>max(n - 1, 0)\<close>, each step in binary32. It is NaN
  (a warning, no exception) when \<open>n \<le> 1\<close>, and an infinity when a square or the sum
  overflows.
\<close>

definition np_var :: "vec \<Rightarrow> flt" where
  "np_var xs =
     (let arrmean = np_mean xs;
          x = map (\<lambda>v. fl_sub round32 (Fin v) arrmean) xs;
          sq = map (\<lambda>d. fl_mul round32 d d) x
      in fl_div round32 (fl_sum sq) (round32 (real (length xs - 1))))"

text \<open>
  \<^verbatim>\<open>mean_diff_ok = abs(m1 - m2) <= 1.96 * np.sqrt(v1/n1 + v2/n2)\<close>
  A comparison with NaN is false.
\<close>

definition mean_diff_ok :: "flt \<Rightarrow> flt \<Rightarrow> flt \<Rightarrow> flt \<Rightarrow> nat \<Rightarrow> nat \<Rightarrow> bool" where
  "mean_diff_ok m1 m2 v1 v2 n1 n2 =
     fl_le (fl_abs (fl_sub Fin m1 m2))
       (fl_mul Fin (Fin 1.96)
          (fl_sqrt Fin (fl_add Fin (fl_div Fin v1 (Fin (real n1)))
                                   (fl_div Fin v2 (Fin (real n2))))))"

text \<open>
  \<^verbatim>\<open>ratio = v1 / (v2 + 1e-9)
  if ratio < 1:
      ratio = 1.0 / (ratio + 1e-9)
  var_diff_ok = ratio <= 2.0\<close>
\<close>

definition var_ratio :: "flt \<Rightarrow> flt \<Rightarrow> flt" where
  "var_ratio v1 v2 =
     (let ratio = fl_div Fin v1 (fl_add Fin v2 (Fin (1 / 10 ^ 9)))
      in if fl_less ratio (Fin 1) then fl_div Fin (Fin 1) (fl_add Fin ratio (Fin (1 / 10 ^ 9)))
         else ratio)"

definition var_diff_ok :: "flt \<Rightarrow> flt \<Rightarrow> bool" where
  "var_diff_ok v1 v2 = fl_le (var_ratio v1 v2) (Fin 2)"

text \<open>One pass of the loop over the features: is feature \<open>d\<close> embedded?\<close>

definition feature_embedded :: "tensor2 \<Rightarrow> tensor2 \<Rightarrow> nat \<Rightarrow> error + bool" where
  "feature_embedded data_ref neurons_sample d =
     (case column d data_ref of
        Inl e \<Rightarrow> Inl e
      | Inr dcol \<Rightarrow>
          (case column d neurons_sample of
             Inl e \<Rightarrow> Inl e
           | Inr ncol \<Rightarrow>
               Inr (mean_diff_ok (np_mean dcol) (np_mean ncol) (np_var dcol) (np_var ncol)
                      (length data_ref) (length neurons_sample)
                    \<and> var_diff_ok (np_var dcol) (np_var ncol))))"

text \<open>The loop \<open>for d in range(self.input_dim)\<close> with its counter.\<close>

fun count_embedded :: "tensor2 \<Rightarrow> tensor2 \<Rightarrow> nat list \<Rightarrow> nat \<Rightarrow> error + nat" where
  "count_embedded data_ref neurons_sample [] embedded_features = Inr embedded_features"
| "count_embedded data_ref neurons_sample (d # ds) embedded_features =
     (case feature_embedded data_ref neurons_sample d of
        Inl e \<Rightarrow> Inl e
      | Inr ok \<Rightarrow>
          count_embedded data_ref neurons_sample ds
            (if ok then embedded_features + 1 else embedded_features))"

text \<open>
  \<open>calc_convergence\<close>. The parameter \<open>significance\<close> is not read by the body. The
  division by \<open>float(self.input_dim)\<close> raises ZeroDivisionError when the dimension is 0.
  The assignment to \<open>self.last_cv\<close> is the last statement before the return.
\<close>

definition calc_convergence :: "soo_map \<Rightarrow> tensor2 \<Rightarrow> real \<Rightarrow> (error + real) \<times> soo_map" where
  "calc_convergence st data_ref significance =
     (case count_embedded data_ref (weights st) [0..<input_dim st] 0 of
        Inl e \<Rightarrow> (Inl e, st)
      | Inr embedded_features \<Rightarrow>
          (if input_dim st = 0 then (Inl ZeroDivisionError, st)
           else
             (let cv_value = real embedded_features / real (input_dim st)
              in (Inr cv_value, st\<lparr>last_cv := cv_value\<rparr>))))"

subsection \<open>The training loop\<close>

text \<open>
  The neighbours of the BMU, as \<open>train\<close> selects them:
  \<^verbatim>\<open>bmu_coord = self.coordinates[bmu_idx]
  coord_dists = torch.sum((self.coordinates - bmu_coord) ** 2, dim=1)
  neighbor_idx = torch.where(coord_dists <= (self.current_radius ** 2))[0]\<close>
\<close>

definition neighbors :: "soo_map \<Rightarrow> nat \<Rightarrow> error + nat list" where
  "neighbors st bmu_idx =
     (if length (coordinates st) \<le> bmu_idx then Inl IndexError
      else
        (case euclidean_sq (coordinates st) (coordinates st ! bmu_idx) of
           Inl e \<Rightarrow> Inl e
         | Inr coord_dists \<Rightarrow>
             Inr (filter (\<lambda>i. coord_dists ! i \<le> (current_radius st) ^ 2)
                    [0..<length coord_dists])))"

text \<open>The body of \<open>for x in batch\<close>.\<close>

definition train_sample :: "soo_map \<Rightarrow> vec \<Rightarrow> (error + unit) \<times> soo_map" where
  "train_sample st x =
     (case find_bmu st x of
        (Inl e, st1) \<Rightarrow> (Inl e, st1)
      | (Inr bmu_idx, st1) \<Rightarrow>
          (case neighbors st1 bmu_idx of
             Inl e \<Rightarrow> (Inl e, st1)
           | Inr neighbor_idx \<Rightarrow>
               (case update_weights st1 bmu_idx x (current_lr st1) of
                  (Inl e, st2) \<Rightarrow> (Inl e, st2)
                | (Inr u, st2) \<Rightarrow>
                    update_coordinates st2 bmu_idx neighbor_idx (current_lr st2))))"

text \<open>\<open>for x in batch\<close>: the samples of one batch, one at a time, in order.\<close>

fun train_batch :: "soo_map \<Rightarrow> vec list \<Rightarrow> (error + unit) \<times> soo_map" where
  "train_batch st [] = (Inr (), st)"
| "train_batch st (x # xs) =
     (case train_sample st x of
        (Inl e, st') \<Rightarrow> (Inl e, st')
      | (Inr u, st') \<Rightarrow> train_batch st' xs)"

text \<open>
  \<open>range(i, n_samples, batch_size)\<close> for a positive step, and the loop over it with the
  slice \<open>data_shuffled[i:i+batch_size]\<close>.
\<close>

function range_step :: "nat \<Rightarrow> nat \<Rightarrow> nat \<Rightarrow> nat list" where
  "range_step i n b = (if b = 0 \<or> n \<le> i then [] else i # range_step (i + b) n b)"
  by pat_completeness auto
termination
  by (relation "measure (\<lambda>(i, n, b). n - i)") auto

fun train_batches :: "soo_map \<Rightarrow> vec list \<Rightarrow> nat \<Rightarrow> nat list \<Rightarrow> (error + unit) \<times> soo_map" where
  "train_batches st data_shuffled b [] = (Inr (), st)"
| "train_batches st data_shuffled b (i # is) =
     (case train_batch st (take b (drop i data_shuffled)) of
        (Inl e, st') \<Rightarrow> (Inl e, st')
      | (Inr u, st') \<Rightarrow> train_batches st' data_shuffled b is)"

text \<open>
  \<open>data[perm]\<close>: the rows of \<open>data\<close> in the order of the index tensor; IndexError on an
  index out of range.
\<close>

definition index_rows :: "'a list \<Rightarrow> nat list \<Rightarrow> error + 'a list" where
  "index_rows data idx =
     (if list_ex (\<lambda>i. length data \<le> i) idx then Inl IndexError
      else Inr (map (\<lambda>i. data ! i) idx))"

text \<open>
  The decay at the end of an epoch:
  \<^verbatim>\<open>self.current_lr = max(min_lr, self.initial_lr * (1.0 - cv))
  self.current_radius = max(min_radius, self.initial_radius * (1.0 - cv))\<close>
\<close>

definition decay :: "soo_map \<Rightarrow> real \<Rightarrow> real \<Rightarrow> real \<Rightarrow> soo_map" where
  "decay st cv min_lr min_radius =
     st\<lparr>current_lr := max min_lr (initial_lr st * (1 - cv)),
        current_radius := max min_radius (initial_radius st * (1 - cv))\<rparr>"

text \<open>
  The body of \<open>for epoch in range(1, epochs+1)\<close>. \<open>perm\<close> is the draw of
  \<open>torch.randperm(n_samples)\<close> of this epoch. \<open>range(0, n_samples, batch_size)\<close>
  raises ValueError for a step of 0 and is empty for a negative one.
\<close>

definition train_epoch ::
    "soo_map \<Rightarrow> vec list \<Rightarrow> nat list \<Rightarrow> int \<Rightarrow> tensor2 \<Rightarrow> real \<Rightarrow> real \<Rightarrow> (error + unit) \<times> soo_map" where
  "train_epoch st data perm batch_size ref_data_np min_lr min_radius =
     (case index_rows data perm of
        Inl e \<Rightarrow> (Inl e, st)
      | Inr data_shuffled \<Rightarrow>
          (if batch_size = 0 then (Inl ValueError, st)
           else
             (case train_batches st data_shuffled (nat batch_size)
                     (if batch_size < 0 then [] else range_step 0 (length data) (nat batch_size)) of
                (Inl e, st1) \<Rightarrow> (Inl e, st1)
              | (Inr u, st1) \<Rightarrow>
                  (case calc_convergence st1 ref_data_np 0.05 of
                     (Inl e, st2) \<Rightarrow> (Inl e, st2)
                   | (Inr cv, st2) \<Rightarrow> (Inr (), decay st2 cv min_lr min_radius)))))"

text \<open>The epochs \<open>epoch, epoch + 1, ...\<close>, \<open>k\<close> of them; \<open>perm_of\<close> gives each one's draw.\<close>

fun train_epochs ::
    "soo_map \<Rightarrow> vec list \<Rightarrow> (nat \<Rightarrow> nat list) \<Rightarrow> int \<Rightarrow> tensor2 \<Rightarrow> real \<Rightarrow> real \<Rightarrow> nat \<Rightarrow> nat \<Rightarrow>
     (error + unit) \<times> soo_map" where
  "train_epochs st data perm_of batch_size ref_data_np min_lr min_radius epoch 0 = (Inr (), st)"
| "train_epochs st data perm_of batch_size ref_data_np min_lr min_radius epoch (Suc k) =
     (case train_epoch st data (perm_of epoch) batch_size ref_data_np min_lr min_radius of
        (Inl e, st') \<Rightarrow> (Inl e, st')
      | (Inr u, st') \<Rightarrow>
          train_epochs st' data perm_of batch_size ref_data_np min_lr min_radius (Suc epoch) k)"

text \<open>
  \<open>train\<close>. \<open>choice\<close> is the draw of
  \<open>np.random.choice(n_samples, size=ref_sample_size, replace=False)\<close>; \<open>perm_of\<close>
  gives the draw of \<open>torch.randperm\<close> of each epoch. A negative \<open>epochs\<close> runs no epoch.
\<close>

definition train ::
    "soo_map \<Rightarrow> vec list \<Rightarrow> int \<Rightarrow> int \<Rightarrow> int option \<Rightarrow> real \<Rightarrow> real \<Rightarrow> nat list \<Rightarrow> (nat \<Rightarrow> nat list) \<Rightarrow>
     (error + unit) \<times> soo_map" where
  "train st data epochs batch_size ref_sample_size min_lr min_radius choice perm_of =
     (case (case ref_sample_size of
              None \<Rightarrow> Inr data
            | Some r \<Rightarrow>
                if r \<le> 0 \<or> int (length data) < r then Inr data
                else index_rows data choice) of
        Inl e \<Rightarrow> (Inl e, st)
      | Inr ref_data_np \<Rightarrow>
          train_epochs st data perm_of batch_size ref_data_np min_lr min_radius 1 (nat epochs))"

subsection \<open>Notions used to state the properties\<close>

text \<open>
  The entry that both update rules compute: the float32 value of \<open>c + lr * (t - c)\<close>,
  the subtraction, the product with the rate converted to float32, and the addition
  each rounded.
\<close>

definition f32_step :: "real \<Rightarrow> real \<Rightarrow> real \<Rightarrow> flt" where
  "f32_step lr t c =
     fl_add round32 (Fin c) (fl_mul round32 (round32 lr) (fl_sub round32 (Fin t) (Fin c)))"

text \<open>A number that binary32 holds: rounding leaves it as it is.\<close>

definition is_f32 :: "real \<Rightarrow> bool" where
  "is_f32 v = (round32 v = Fin v)"

subsection \<open>Concrete maps\<close>

text \<open>
  Small maps built by \<open>init\<close> from fixed draws, for the concrete runs below:
  three nodes of one feature with two equal weights; the four all-zero nodes of one
  feature; two nodes of one feature at 0 and 1; two all-zero nodes of three features;
  a single all-zero node of three features; two nodes of two features; one node of
  weight 1; three nodes whose first coordinates are 0, \<open>2 ^ -24\<close> and
  \<open>1 - 2 ^ -24\<close>; two nodes at -1 and 3 with the negative radius -2; two nodes at plus
  and minus \<open>2 ^ 100\<close>.
\<close>

definition tie_map :: soo_map where
  "tie_map = init 3 1 1 1 (1 / 2) (1 / 2) None
     [[1], [0], [0]] [[0, 0, 0], [1, 0, 0], [0, 1, 0]]"

definition quad_map :: soo_map where
  "quad_map = init 4 1 1 1 1 10 None
     [[0], [0], [0], [0]] [[0, 0, 0], [1, 0, 0], [0, 1, 0], [0, 0, 1]]"

definition pair_map :: soo_map where
  "pair_map = init 2 1 1 1 (1 / 2) 2 None [[0], [1]] [[0, 0, 0], [1, 0, 0]]"

definition zero_map :: soo_map where
  "zero_map = init 2 3 1 1 (1 / 2) 2 None [[0, 0, 0], [0, 0, 0]] [[0, 0, 0], [1, 0, 0]]"

definition solo_map :: soo_map where
  "solo_map = init 1 3 1 1 (1 / 2) 2 None [[0, 0, 0]] [[0, 0, 0]]"

definition wide_map :: soo_map where
  "wide_map = init 2 2 1 1 1 2 None [[0, 0], [1, 1]] [[0, 0, 0], [1, 0, 0]]"


definition tri_map :: soo_map where
  "tri_map = init 3 1 1 1 1 2 None [[0], [1], [2]]
     [[0, 0, 0], [1 / 2 ^ 24, 0, 0], [1 - 1 / 2 ^ 24, 0, 0]]"

definition neg_map :: soo_map where
  "neg_map = init 2 1 1 1 (1 / 2) (- 2) None [[- 1], [3]] [[0, 0, 0], [1, 0, 0]]"

definition big_map :: soo_map where
  "big_map = init 2 1 1 1 (1 / 2) 2 None [[2 ^ 100], [- (2 ^ 100)]] [[0, 0, 0], [1, 0, 0]]"

section \<open>Properties\<close>

declare range_step.simps [simp del]

declare bit_length.simps [simp del]

lemmas float_defs =
  round32_def exponent_def round_half_even_def bit_length.simps Let_def fl_sub_def
  inf_of_sign_def f32_step_def is_f32_def

lemmas tensor_defs =
  broadcast_len_def expand_def vsub_def msub_def euclidean_sq_def argmin_def
  f32_sub_def f32_scale_def f32_iadd_def

lemmas conv_defs =
  column_def fl_sum_def np_mean_def np_var_def mean_diff_ok_def var_ratio_def var_diff_ok_def
  feature_embedded_def calc_convergence_def

lemmas sample_defs =
  find_bmu_def neighbors_def update_weights_def update_coordinates_def train_sample_def

subsection \<open>BMU search\<close>

text \<open>
  The scan of \<open>argmin\<close>, with the values already seen as \<open>pre\<close>: the best index is
  the first one of the least value of \<open>pre\<close>, and stays so for \<open>pre @ ds\<close> at the end.
\<close>

lemma argmin_scan_inv:
  assumes "length pre = i" "best < i" "pre ! best = bv"
    "\<forall>j<i. bv \<le> pre ! j" "\<forall>j<best. bv < pre ! j"
  shows "argmin_scan best bv i ds < length (pre @ ds)
       \<and> (\<forall>j<length (pre @ ds). (pre @ ds) ! argmin_scan best bv i ds \<le> (pre @ ds) ! j)
       \<and> (\<forall>j<argmin_scan best bv i ds. (pre @ ds) ! argmin_scan best bv i ds < (pre @ ds) ! j)"
  using assms
proof (induction ds arbitrary: best bv i pre)
  case Nil
  then show ?case by simp
next
  case (Cons d ds)
  note len = Cons.prems(1) and bst = Cons.prems(2) and val = Cons.prems(3)
    and low = Cons.prems(4) and fst = Cons.prems(5)
  have app: "(pre @ [d]) @ ds = pre @ d # ds" by simp
  show ?case
  proof (cases "d < bv")
    case True
    have le: "\<forall>j<Suc i. d \<le> (pre @ [d]) ! j"
    proof (intro allI impI)
      fix j assume j: "j < Suc i"
      show "d \<le> (pre @ [d]) ! j"
      proof (cases "j < i")
        case True
        with low have "bv \<le> pre ! j" by blast
        with \<open>d < bv\<close> have "d \<le> pre ! j" by linarith
        with True len show ?thesis by (simp add: nth_append)
      next
        case False
        with j have "j = i" by linarith
        with len show ?thesis by (simp add: nth_append)
      qed
    qed
    have lt: "\<forall>j<i. d < (pre @ [d]) ! j"
    proof (intro allI impI)
      fix j assume j: "j < i"
      with low have "bv \<le> pre ! j" by blast
      with \<open>d < bv\<close> have "d < pre ! j" by linarith
      with j len show "d < (pre @ [d]) ! j" by (simp add: nth_append)
    qed
    have "argmin_scan i d (Suc i) ds < length ((pre @ [d]) @ ds)
       \<and> (\<forall>j<length ((pre @ [d]) @ ds). ((pre @ [d]) @ ds) ! argmin_scan i d (Suc i) ds \<le> ((pre @ [d]) @ ds) ! j)
       \<and> (\<forall>j<argmin_scan i d (Suc i) ds. ((pre @ [d]) @ ds) ! argmin_scan i d (Suc i) ds < ((pre @ [d]) @ ds) ! j)"
    proof (rule Cons.IH)
      show "length (pre @ [d]) = Suc i" using len by simp
      show "i < Suc i" by simp
      show "(pre @ [d]) ! i = d" using len by (simp add: nth_append)
    qed (rule le, rule lt)
    with True show ?thesis unfolding app by simp
  next
    case False
    have le: "\<forall>j<Suc i. bv \<le> (pre @ [d]) ! j"
    proof (intro allI impI)
      fix j assume j: "j < Suc i"
      show "bv \<le> (pre @ [d]) ! j"
      proof (cases "j < i")
        case True
        with low have "bv \<le> pre ! j" by blast
        with True len show ?thesis by (simp add: nth_append)
      next
        case F: False
        with j have "j = i" by linarith
        with len False show ?thesis by (simp add: nth_append)
      qed
    qed
    have lt: "\<forall>j<best. bv < (pre @ [d]) ! j"
    proof (intro allI impI)
      fix j assume j: "j < best"
      with fst have "bv < pre ! j" by blast
      with j bst len show "bv < (pre @ [d]) ! j" by (simp add: nth_append)
    qed
    have "argmin_scan best bv (Suc i) ds < length ((pre @ [d]) @ ds)
       \<and> (\<forall>j<length ((pre @ [d]) @ ds). ((pre @ [d]) @ ds) ! argmin_scan best bv (Suc i) ds \<le> ((pre @ [d]) @ ds) ! j)
       \<and> (\<forall>j<argmin_scan best bv (Suc i) ds. ((pre @ [d]) @ ds) ! argmin_scan best bv (Suc i) ds < ((pre @ [d]) @ ds) ! j)"
    proof (rule Cons.IH)
      show "length (pre @ [d]) = Suc i" using len by simp
      show "best < Suc i" using bst by simp
      show "(pre @ [d]) ! best = bv" using bst len val by (simp add: nth_append)
    qed (rule le, rule lt)
    with False show ?thesis unfolding app by simp
  qed
qed

lemma argmin_first_min:
  assumes "dists \<noteq> []"
  shows "\<exists>i. argmin dists = Inr i \<and> i < length dists
          \<and> (\<forall>j<length dists. dists ! i \<le> dists ! j)
          \<and> (\<forall>j<i. dists ! i < dists ! j)"
proof -
  from assms obtain d ds where eq: "dists = d # ds" by (cases dists) auto
  have "argmin_scan 0 d 1 ds < length ([d] @ ds)
       \<and> (\<forall>j<length ([d] @ ds). ([d] @ ds) ! argmin_scan 0 d 1 ds \<le> ([d] @ ds) ! j)
       \<and> (\<forall>j<argmin_scan 0 d 1 ds. ([d] @ ds) ! argmin_scan 0 d 1 ds < ([d] @ ds) ! j)"
    by (rule argmin_scan_inv) auto
  then show ?thesis by (simp add: eq argmin_def)
qed

text \<open>
  Claim C2. Whenever the configured distance metric returns one value per node and the
  map has a node, \<open>find_bmu\<close> returns an index \<open>i\<close> below the number of nodes whose
  distance is the least one, every node before \<open>i\<close> has a strictly larger distance
  (on a tie the lowest index wins), and the map is returned as it was.
\<close>

theorem find_bmu_first_minimum:
  assumes "distance_metric st (weights st) x = Inr dists"
    and "length dists = length (weights st)"
    and "weights st \<noteq> []"
  shows "\<exists>i. find_bmu st x = (Inr i, st) \<and> i < length (weights st)
           \<and> (\<forall>j<length (weights st). dists ! i \<le> dists ! j)
           \<and> (\<forall>j<i. dists ! i < dists ! j)"
proof -
  from assms have "dists \<noteq> []" by auto
  from argmin_first_min [OF this] assms(1,2) show ?thesis
    by (auto simp: find_bmu_def)
qed

text \<open>
  The default metric returns one value per node when every weight row has the length
  of the input.
\<close>

lemma sequence_map_Inr:
  "\<forall>x\<in>set xs. g x = Inr (f x) \<Longrightarrow> sequence (map g xs) = Inr (map f xs)"
  by (induction xs) auto

lemma euclidean_sq_defined:
  assumes "\<forall>w\<in>set ws. length w = length x"
  shows "\<exists>dists. euclidean_sq ws x = Inr dists \<and> length dists = length ws"
proof -
  have "\<forall>row\<in>set ws. vsub row x = Inr (map2 (-) row x)"
    using assms by (auto simp: vsub_def broadcast_len_def expand_def)
  then have "msub ws x = Inr (map (\<lambda>row. map2 (-) row x) ws)"
    unfolding msub_def by (rule sequence_map_Inr)
  then show ?thesis by (simp add: euclidean_sq_def)
qed

text \<open>
  A run: among the distances 1, 0, 0 the two last nodes tie, and the lower index 1 is
  returned.
\<close>

theorem find_bmu_first_minimum_witness:
  "distance_metric tie_map (weights tie_map) [0] = Inr [1, 0, 0]
   \<and> length [1, 0, 0 :: real] = length (weights tie_map)
   \<and> weights tie_map \<noteq> []
   \<and> find_bmu tie_map [0] = (Inr 1, tie_map)
   \<and> (\<exists>i. find_bmu tie_map [0] = (Inr i, tie_map) \<and> i < length (weights tie_map)
           \<and> (\<forall>j<length (weights tie_map). [1, 0, 0 :: real] ! i \<le> [1, 0, 0] ! j)
           \<and> (\<forall>j<i. [1, 0, 0 :: real] ! i < [1, 0, 0] ! j))"
proof -
  have h1: "distance_metric tie_map (weights tie_map) [0] = Inr [1, 0, 0]"
    by (simp add: tie_map_def init_def tensor_defs)
  have h2: "length [1, 0, 0 :: real] = length (weights tie_map)"
    by (simp add: tie_map_def init_def)
  have h3: "weights tie_map \<noteq> []"
    by (simp add: tie_map_def init_def)
  have v: "find_bmu tie_map [0] = (Inr 1, tie_map)"
    by (simp add: tie_map_def init_def tensor_defs find_bmu_def)
  from find_bmu_first_minimum [OF h1 h2 h3] h1 h2 h3 v show ?thesis by blast
qed

subsection \<open>Binary32 facts\<close>

lemma round32_0: "round32 0 = Fin 0"
  by (simp add: round32_def)

lemma round32_1: "round32 1 = Fin 1"
  by (simp add: float_defs)

lemma finite_row_map_Fin: "finite_row (map Fin vs) = Inr vs"
  by (induction vs) auto

lemma finite_row_Inr: "finite_row fs = Inr vs \<Longrightarrow> fs = map Fin vs"
proof (induction fs arbitrary: vs)
  case Nil
  then show ?case by simp
next
  case (Cons f fs)
  then show ?case by (cases f) (auto split: sum.splits)
qed

lemma finite_row_Inl: "finite_row fs = Inl e \<Longrightarrow> e = NonFinite"
proof (induction fs)
  case Nil
  then show ?case by simp
next
  case (Cons f fs)
  then show ?case by (cases f) (auto split: sum.splits)
qed

lemma finite_row_length: "finite_row fs = Inr vs \<Longrightarrow> length vs = length fs"
  by (drule finite_row_Inr) simp

text \<open>
  The step \<open>c + lr * (t - c)\<close> in binary32: it leaves a float32 number \<open>c\<close> as it is
  when \<open>t = c\<close> and the rate is finite, and when the rate is 0 and \<open>t - c\<close> does not
  overflow; with rate 1 it gives \<open>t\<close> when \<open>t\<close> is a float32 number and the
  subtraction is exact.
\<close>

lemma f32_step_self:
  assumes "is_f32 c" and "round32 lr = Fin l"
  shows "f32_step lr c c = Fin c"
  using assms by (simp add: f32_step_def fl_sub_def round32_0 is_f32_def)


lemma f32_step_one:
  assumes "is_f32 t" and "is_f32 (t - c)"
  shows "f32_step 1 t c = Fin t"
  using assms by (simp add: f32_step_def fl_sub_def round32_1 is_f32_def)

subsection \<open>Weight update\<close>

lemma f32_sub_same_length:
  "length a = length b \<Longrightarrow>
   f32_sub a b = Inr (map2 (\<lambda>u v. fl_sub round32 (Fin u) (Fin v)) a b)"
  by (simp add: f32_sub_def broadcast_len_def expand_def)

lemma step_row_eq:
  "length t = length c \<Longrightarrow>
   map2 (\<lambda>u d. fl_add round32 (Fin u) d) c
     (f32_scale lr (map2 (\<lambda>u v. fl_sub round32 (Fin u) (Fin v)) t c))
   = map2 (\<lambda>c t. f32_step lr t c) c t"
  unfolding f32_scale_def f32_step_def
  by (induction c t rule: list_induct2') auto

text \<open>The row that the two update rules compute for a target of the row's length.\<close>

lemma row_update:
  assumes "length t = length c"
  shows "f32_sub t c = Inr (map2 (\<lambda>u v. fl_sub round32 (Fin u) (Fin v)) t c)"
    and "f32_iadd c (f32_scale lr (map2 (\<lambda>u v. fl_sub round32 (Fin u) (Fin v)) t c))
         = Inr (map2 (\<lambda>c t. f32_step lr t c) c t)"
proof -
  show "f32_sub t c = Inr (map2 (\<lambda>u v. fl_sub round32 (Fin u) (Fin v)) t c)"
    using assms by (rule f32_sub_same_length)
  have "length (f32_scale lr (map2 (\<lambda>u v. fl_sub round32 (Fin u) (Fin v)) t c)) = length c"
    using assms by (simp add: f32_scale_def)
  then show "f32_iadd c (f32_scale lr (map2 (\<lambda>u v. fl_sub round32 (Fin u) (Fin v)) t c))
         = Inr (map2 (\<lambda>c t. f32_step lr t c) c t)"
    using assms by (simp add: f32_iadd_def step_row_eq)
qed



lemma map2_step_one:
  assumes "length x = length w" and "\<forall>t\<in>set x. is_f32 t"
    and "\<forall>k<length w. is_f32 (x ! k - w ! k)"
  shows "map2 (\<lambda>c t. f32_step 1 t c) w x = map Fin x"
proof (rule nth_equalityI)
  show "length (map2 (\<lambda>c t. f32_step 1 t c) w x) = length (map Fin x)"
    using assms(1) by simp
next
  fix k assume "k < length (map2 (\<lambda>c t. f32_step 1 t c) w x)"
  then have k: "k < length w" by simp
  with assms have "is_f32 (x ! k)" "is_f32 (x ! k - w ! k)" by simp_all
  then have "f32_step 1 (x ! k) (w ! k) = Fin (x ! k)"
    by (rule f32_step_one)
  with k assms(1) show "map2 (\<lambda>c t. f32_step 1 t c) w x ! k = map Fin x ! k" by simp
qed




subsection \<open>Coordinate update\<close>

lemma coordinate_pass:
  assumes "ni < length cs" and "length (cs ! bmu_idx) = length (cs ! ni)"
  shows "update_coordinates_loop bmu_idx coord_lr (ni # nis) cs =
         (case finite_row (map2 (\<lambda>c t. f32_step coord_lr t c) (cs ! ni) (cs ! bmu_idx)) of
            Inl e \<Rightarrow> (Inl NonFinite, cs)
          | Inr c' \<Rightarrow> update_coordinates_loop bmu_idx coord_lr nis (cs[ni := c']))"
  using assms(1) row_update(1) [OF assms(2)] row_update(2) [OF assms(2), of coord_lr]
  by (auto split: sum.splits dest: finite_row_Inl)

text \<open>Whatever the loop does, it writes selected rows only and keeps the number of rows.\<close>

lemma update_coordinates_loop_frame:
  "update_coordinates_loop bmu_idx coord_lr nis cs = (r, cs') \<Longrightarrow>
   length cs' = length cs \<and> (\<forall>i. i \<notin> set nis \<longrightarrow> cs' ! i = cs ! i)"
proof (induction nis arbitrary: cs)
  case Nil
  then show ?case by simp
next
  case (Cons ni nis)
  consider (stop) "cs' = cs"
    | (go) c' where "update_coordinates_loop bmu_idx coord_lr nis (cs[ni := c']) = (r, cs')"
    using Cons.prems by (auto split: if_splits sum.splits)
  then show ?case
  proof cases
    case stop
    then show ?thesis by simp
  next
    case go
    from Cons.IH [OF go] show ?thesis by auto
  qed
qed

lemma map2_step_self:
  assumes "\<forall>c\<in>set b. is_f32 c" and "round32 lr = Fin l"
  shows "map2 (\<lambda>c t. f32_step lr t c) b b = map Fin b"
  using assms(1) by (induction b) (auto simp: f32_step_self [OF _ assms(2)])

text \<open>
  The whole loop over distinct neighbours, for a BMU row of float32 numbers and a rate
  that is finite in float32: the BMU's row never changes (its own pass adds
  \<open>coord_lr * 0\<close>), so every pass reads the same \<open>bmu_coord\<close> through the view. The
  loop ends with \<open>NonFinite\<close> or returns, and it returns when every step is finite.
\<close>

lemma update_coordinates_loop_result:
  assumes "bmu_idx < length cs"
    and "\<forall>ni\<in>set nis. ni < length cs"
    and "distinct nis"
    and "\<forall>i<length cs. length (cs ! i) = n"
    and "\<forall>c\<in>set (cs ! bmu_idx). is_f32 c"
    and "round32 coord_lr = Fin l"
    and "update_coordinates_loop bmu_idx coord_lr nis cs = (r, cs')"
  shows "cs' ! bmu_idx = cs ! bmu_idx
       \<and> (r = Inr () \<or> r = Inl NonFinite)
       \<and> (r = Inr () \<longrightarrow>
            (\<forall>i\<in>set nis. map Fin (cs' ! i) =
                map2 (\<lambda>c t. f32_step coord_lr t c) (cs ! i) (cs ! bmu_idx)))
       \<and> ((\<forall>i\<in>set nis. \<exists>v. map2 (\<lambda>c t. f32_step coord_lr t c) (cs ! i) (cs ! bmu_idx) = map Fin v)
            \<longrightarrow> r = Inr ())"
  using assms
proof (induction nis arbitrary: cs)
  case Nil
  then show ?case by simp
next
  case (Cons ni nis)
  let ?b = "cs ! bmu_idx"
  let ?row = "map2 (\<lambda>c t. f32_step coord_lr t c) (cs ! ni) ?b"
  from Cons.prems have ni: "ni < length cs" and notin: "ni \<notin> set nis" by auto
  from Cons.prems(1,4) ni have len: "length ?b = length (cs ! ni)" by simp
  note pass = coordinate_pass [OF ni len, of coord_lr nis]
  show ?case
  proof (cases "finite_row ?row")
    case (Inl e)
    with pass Cons.prems(7) have r: "r = Inl NonFinite" and cs': "cs' = cs" by simp_all
    have "\<not> (\<exists>v. ?row = map Fin v)"
      using Inl by (auto simp: finite_row_map_Fin)
    with r cs' show ?thesis by auto
  next
    case (Inr c')
    let ?cs1 = "cs[ni := c']"
    from finite_row_Inr [OF Inr] have row: "?row = map Fin c'" .
    from Inr pass Cons.prems(7)
    have run: "update_coordinates_loop bmu_idx coord_lr nis ?cs1 = (r, cs')" by simp
    have c'len: "length c' = length (cs ! ni)"
      using finite_row_length [OF Inr] len by simp
    have bmu_same: "?cs1 ! bmu_idx = ?b"
    proof (cases "ni = bmu_idx")
      case True
      with row map2_step_self [OF Cons.prems(5,6)] have "map Fin c' = map Fin ?b" by simp
      then have "c' = ?b" by (simp add: inj_map_eq_map inj_on_def)
      with True ni show ?thesis by simp
    next
      case False
      then show ?thesis by simp
    qed
    have rows: "\<forall>i<length ?cs1. length (?cs1 ! i) = n"
    proof (intro allI impI)
      fix i assume "i < length ?cs1"
      with Cons.prems(4) c'len ni show "length (?cs1 ! i) = n"
        by (cases "i = ni") simp_all
    qed
    have IH: "cs' ! bmu_idx = ?cs1 ! bmu_idx
       \<and> (r = Inr () \<or> r = Inl NonFinite)
       \<and> (r = Inr () \<longrightarrow>
            (\<forall>i\<in>set nis. map Fin (cs' ! i) =
                map2 (\<lambda>c t. f32_step coord_lr t c) (?cs1 ! i) (?cs1 ! bmu_idx)))
       \<and> ((\<forall>i\<in>set nis. \<exists>v. map2 (\<lambda>c t. f32_step coord_lr t c) (?cs1 ! i) (?cs1 ! bmu_idx) = map Fin v)
            \<longrightarrow> r = Inr ())"
    proof (rule Cons.IH)
      show "bmu_idx < length ?cs1" using Cons.prems(1) by simp
      show "\<forall>ni\<in>set nis. ni < length ?cs1" using Cons.prems(2) by simp
      show "distinct nis" using Cons.prems(3) by simp
      show "\<forall>i<length ?cs1. length (?cs1 ! i) = n" by (rule rows)
      show "\<forall>c\<in>set (?cs1 ! bmu_idx). is_f32 c" using Cons.prems(5) by (simp only: bmu_same)
      show "round32 coord_lr = Fin l" by (rule Cons.prems(6))
      show "update_coordinates_loop bmu_idx coord_lr nis ?cs1 = (r, cs')" by (rule run)
    qed
    have other: "?cs1 ! i = cs ! i" if "i \<in> set nis" for i
      using that notin by (cases "i = ni") auto
    from update_coordinates_loop_frame [OF run] notin ni
    have at_ni: "cs' ! ni = c'" by simp
    have sel: "r = Inr () \<longrightarrow>
            (\<forall>i\<in>set (ni # nis). map Fin (cs' ! i) =
                map2 (\<lambda>c t. f32_step coord_lr t c) (cs ! i) ?b)"
      using IH row at_ni other by (auto simp: bmu_same)
    have fin: "(\<forall>i\<in>set (ni # nis). \<exists>v. map2 (\<lambda>c t. f32_step coord_lr t c) (cs ! i) ?b = map Fin v)
            \<longrightarrow> r = Inr ()"
      using IH other by (auto simp: bmu_same)
    from IH have b': "cs' ! bmu_idx = ?b" and r': "r = Inr () \<or> r = Inl NonFinite"
      by (simp_all only: bmu_same)
    from b' r' sel fin show ?thesis by blast
  qed
qed

text \<open>
  Claim C5, as the code has it. For a BMU index of the map, distinct neighbour indices
  of the map (as \<open>torch.where\<close> gives them) and rows of three coordinates: the
  number of rows, the rows outside the selection and the weights are as before,
  whatever the outcome. When the BMU's row holds float32 numbers and the rate is finite
  in float32, the BMU's row is unchanged, the call returns or ends with
  \<open>NonFinite\<close>, it returns when every new entry is finite, and on return each
  selected row is the float32 value of \<open>c + coord_lr * (b - c)\<close>, each of the three
  operations rounded, for the BMU's row \<open>b\<close> before the call. With rate 1, every
  node selected, float32 entries and every difference \<open>b - c\<close> a float32 number
  (the subtraction is exact), the call returns and every row is the BMU's row before
  the call.
\<close>

theorem update_coordinates_effect:
  assumes "bmu_idx < length (coordinates st)"
    and "\<forall>ni\<in>set neighbor_indices. ni < length (coordinates st)"
    and "distinct neighbor_indices"
    and "\<forall>c\<in>set (coordinates st). length c = 3"
  shows "length (coordinates (snd (update_coordinates st bmu_idx neighbor_indices coord_lr)))
           = length (coordinates st)
       \<and> (\<forall>i. i \<notin> set neighbor_indices \<longrightarrow>
             coordinates (snd (update_coordinates st bmu_idx neighbor_indices coord_lr)) ! i
               = coordinates st ! i)
       \<and> weights (snd (update_coordinates st bmu_idx neighbor_indices coord_lr)) = weights st
       \<and> ((\<forall>v\<in>set (coordinates st ! bmu_idx). is_f32 v) \<and> (\<exists>l. round32 coord_lr = Fin l) \<longrightarrow>
             coordinates (snd (update_coordinates st bmu_idx neighbor_indices coord_lr)) ! bmu_idx
               = coordinates st ! bmu_idx
           \<and> (fst (update_coordinates st bmu_idx neighbor_indices coord_lr) = Inr ()
                \<or> fst (update_coordinates st bmu_idx neighbor_indices coord_lr) = Inl NonFinite)
           \<and> (fst (update_coordinates st bmu_idx neighbor_indices coord_lr) = Inr () \<longrightarrow>
                (\<forall>i\<in>set neighbor_indices.
                   map Fin (coordinates (snd (update_coordinates st bmu_idx neighbor_indices coord_lr)) ! i)
                     = map2 (\<lambda>c b. f32_step coord_lr b c)
                         (coordinates st ! i) (coordinates st ! bmu_idx)))
           \<and> ((\<forall>i\<in>set neighbor_indices. \<exists>v.
                   map2 (\<lambda>c b. f32_step coord_lr b c)
                     (coordinates st ! i) (coordinates st ! bmu_idx) = map Fin v) \<longrightarrow>
                fst (update_coordinates st bmu_idx neighbor_indices coord_lr) = Inr ()))
       \<and> (coord_lr = 1 \<and> set neighbor_indices = {..<length (coordinates st)}
            \<and> (\<forall>c\<in>set (coordinates st). \<forall>v\<in>set c. is_f32 v)
            \<and> (\<forall>i<length (coordinates st). \<forall>k<3.
                  is_f32 (coordinates st ! bmu_idx ! k - coordinates st ! i ! k)) \<longrightarrow>
             fst (update_coordinates st bmu_idx neighbor_indices coord_lr) = Inr ()
           \<and> (\<forall>i<length (coordinates st).
                coordinates (snd (update_coordinates st bmu_idx neighbor_indices coord_lr)) ! i
                  = coordinates st ! bmu_idx))"
proof -
  let ?cs = "coordinates st"
  let ?b = "?cs ! bmu_idx"
  obtain r cs' where loop:
    "update_coordinates_loop bmu_idx coord_lr neighbor_indices ?cs = (r, cs')"
    by (cases "update_coordinates_loop bmu_idx coord_lr neighbor_indices ?cs") auto
  have res: "update_coordinates st bmu_idx neighbor_indices coord_lr = (r, st\<lparr>coordinates := cs'\<rparr>)"
    using assms(1) loop by (simp add: update_coordinates_def)
  have rows: "\<forall>i<length ?cs. length (?cs ! i) = 3"
    using assms(4) by simp
  note frame = update_coordinates_loop_frame [OF loop]
  have a: "length cs' = length ?cs \<and> (\<forall>i. i \<notin> set neighbor_indices \<longrightarrow> cs' ! i = ?cs ! i)"
    using frame by simp
  have b: "cs' ! bmu_idx = ?b
       \<and> (r = Inr () \<or> r = Inl NonFinite)
       \<and> (r = Inr () \<longrightarrow>
            (\<forall>i\<in>set neighbor_indices. map Fin (cs' ! i) =
                map2 (\<lambda>c t. f32_step coord_lr t c) (?cs ! i) ?b))
       \<and> ((\<forall>i\<in>set neighbor_indices. \<exists>v.
              map2 (\<lambda>c t. f32_step coord_lr t c) (?cs ! i) ?b = map Fin v)
            \<longrightarrow> r = Inr ())"
    if f: "\<forall>v\<in>set ?b. is_f32 v" and l: "round32 coord_lr = Fin l" for l
    by (rule update_coordinates_loop_result [OF assms(1) assms(2) assms(3) rows f l loop])
  have c: "r = Inr () \<and> (\<forall>i<length ?cs. cs' ! i = ?b)"
    if h: "coord_lr = 1 \<and> set neighbor_indices = {..<length ?cs}
            \<and> (\<forall>c\<in>set ?cs. \<forall>v\<in>set c. is_f32 v)
            \<and> (\<forall>i<length ?cs. \<forall>k<3. is_f32 (?b ! k - ?cs ! i ! k))"
  proof -
    from assms(1) have "?b \<in> set ?cs" by simp
    with h have fb: "\<forall>v\<in>set ?b. is_f32 v" by blast
    from h have l1: "round32 coord_lr = Fin 1" by (simp add: round32_1)
    have step: "map2 (\<lambda>c t. f32_step coord_lr t c) (?cs ! i) ?b = map Fin ?b"
      if i: "i < length ?cs" for i
    proof -
      from rows i assms(1) have len: "length ?b = length (?cs ! i)" by simp
      from h i rows have ex: "\<forall>k<length (?cs ! i). is_f32 (?b ! k - ?cs ! i ! k)" by simp
      from map2_step_one [OF len fb ex] h show ?thesis by simp
    qed
    from h have sel: "\<forall>i\<in>set neighbor_indices. i < length ?cs" by simp
    from b [OF fb l1] step sel have r: "r = Inr ()" by blast
    have "cs' ! i = ?b" if i: "i < length ?cs" for i
    proof -
      from h i have "i \<in> set neighbor_indices" by simp
      with b [OF fb l1] r have "map Fin (cs' ! i) = map2 (\<lambda>c t. f32_step coord_lr t c) (?cs ! i) ?b"
        by blast
      with step [OF i] have "map Fin (cs' ! i) = map Fin ?b" by simp
      then show ?thesis by (simp add: inj_map_eq_map inj_on_def)
    qed
    with r show ?thesis by simp
  qed
  have sel: "fst (update_coordinates st bmu_idx neighbor_indices coord_lr) = r"
    "coordinates (snd (update_coordinates st bmu_idx neighbor_indices coord_lr)) = cs'"
    "weights (snd (update_coordinates st bmu_idx neighbor_indices coord_lr)) = weights st"
    by (simp_all add: res)
  show ?thesis
    unfolding sel
  proof (intro conjI impI)
    show "length cs' = length ?cs" using a by simp
    show "\<forall>i. i \<notin> set neighbor_indices \<longrightarrow> cs' ! i = ?cs ! i" using a by simp
    show "weights st = weights st" by simp
  next
    assume h: "(\<forall>v\<in>set ?b. is_f32 v) \<and> (\<exists>l. round32 coord_lr = Fin l)"
    then obtain l where l: "round32 coord_lr = Fin l" and f: "\<forall>v\<in>set ?b. is_f32 v" by blast
    note bb = b [OF f l]
    show "cs' ! bmu_idx = ?b" using bb by blast
    show "r = Inr () \<or> r = Inl NonFinite" using bb by blast
    show "\<forall>i\<in>set neighbor_indices. map Fin (cs' ! i) =
                map2 (\<lambda>c t. f32_step coord_lr t c) (?cs ! i) ?b" if "r = Inr ()"
      using bb that by blast
    show "r = Inr ()" if "\<forall>i\<in>set neighbor_indices. \<exists>v.
              map2 (\<lambda>c t. f32_step coord_lr t c) (?cs ! i) ?b = map Fin v"
      using bb that by blast
  next
    assume h: "coord_lr = 1 \<and> set neighbor_indices = {..<length ?cs}
            \<and> (\<forall>c\<in>set ?cs. \<forall>v\<in>set c. is_f32 v)
            \<and> (\<forall>i<length ?cs. \<forall>k<3. is_f32 (?b ! k - ?cs ! i ! k))"
    show "r = Inr ()" using c [OF h] by simp
    show "\<forall>i<length ?cs. cs' ! i = ?b" using c [OF h] by simp
  qed
qed

text \<open>
  A run: all four nodes selected around node 2 with rate 1 move onto \<open>[0, 1, 0]\<close>;
  with only nodes 2 and 3 selected and rate 1/2, node 3 moves half the way and nodes 0
  and 1 stay.
\<close>

theorem update_coordinates_effect_witness:
  "2 < length (coordinates quad_map)
   \<and> distinct [0, 1, 2, 3 :: nat]
   \<and> is_f32 1 \<and> is_f32 (- 1) \<and> is_f32 0
   \<and> update_coordinates quad_map 2 [0, 1, 2, 3] 1 =
        (Inr (), quad_map\<lparr>coordinates := [[0, 1, 0], [0, 1, 0], [0, 1, 0], [0, 1, 0]]\<rparr>)
   \<and> update_coordinates quad_map 2 [2, 3] (1 / 2) =
        (Inr (), quad_map\<lparr>coordinates := [[0, 0, 0], [1, 0, 0], [0, 1, 0], [0, 1 / 2, 1 / 2]]\<rparr>)
   \<and> coordinates (snd (update_coordinates quad_map 2 [2, 3] (1 / 2))) ! 2 = [0, 1, 0]
   \<and> coordinates (snd (update_coordinates quad_map 2 [2, 3] (1 / 2))) ! 0 = [0, 0, 0]"
proof -
  have c: "coordinates quad_map = [[0, 0, 0], [1, 0, 0], [0, 1, 0], [0, 0, 1]]"
    by (simp add: quad_map_def init_def)
  have h1: "2 < length (coordinates quad_map)"
    by (simp add: c)
  have h2: "\<forall>ni\<in>set [0, 1, 2, 3 :: nat]. ni < length (coordinates quad_map)"
    by (simp add: c)
  have h2': "\<forall>ni\<in>set [2, 3 :: nat]. ni < length (coordinates quad_map)"
    by (simp add: c)
  have h3: "distinct [0, 1, 2, 3 :: nat]" by simp
  have h3': "distinct [2, 3 :: nat]" by simp
  have h4: "\<forall>c\<in>set (coordinates quad_map). length c = 3"
    by (simp add: c)
  have f: "is_f32 1" "is_f32 (- 1)" "is_f32 0"
    by (simp_all add: float_defs)
  have v1: "update_coordinates quad_map 2 [0, 1, 2, 3] 1 =
        (Inr (), quad_map\<lparr>coordinates := [[0, 1, 0], [0, 1, 0], [0, 1, 0], [0, 1, 0]]\<rparr>)"
    by (simp add: quad_map_def init_def update_coordinates_def tensor_defs float_defs)
  have v2: "update_coordinates quad_map 2 [2, 3] (1 / 2) =
        (Inr (), quad_map\<lparr>coordinates := [[0, 0, 0], [1, 0, 0], [0, 1, 0], [0, 1 / 2, 1 / 2]]\<rparr>)"
    by (simp add: quad_map_def init_def update_coordinates_def tensor_defs float_defs)
  from update_coordinates_effect [OF h1 h2 h3 h4, of 1]
    update_coordinates_effect [OF h1 h2' h3' h4, of "1 / 2"] h1 h3 f v1 v2
  show ?thesis by (simp add: c)
qed

text \<open>
  Claim C5 as stated fails for the rate 1 with every node selected. The first
  coordinates of the three nodes are 0, \<open>2 ^ -24\<close> and \<open>1 - 2 ^ -24\<close>, values
  that \<open>torch.rand\<close> draws. A call around node 0 with rate 1/2 moves node 1 to
  \<open>2 ^ -25\<close>. In a second call, around node 1 with rate 1 and all three nodes
  selected, the difference \<open>2 ^ -25 - (1 - 2 ^ -24)\<close> rounds to
  \<open>- (1 - 2 ^ -23)\<close>, and node 2 ends at \<open>2 ^ -24\<close>, not on the BMU's
  \<open>2 ^ -25\<close>.
\<close>

theorem update_coordinates_counterexample:
  "update_coordinates tri_map 0 [0, 1] (1 / 2) =
     (Inr (), tri_map\<lparr>coordinates :=
        [[0, 0, 0], [1 / 2 ^ 25, 0, 0], [1 - 1 / 2 ^ 24, 0, 0]]\<rparr>)
   \<and> is_f32 (1 / 2 ^ 25) \<and> is_f32 (1 - 1 / 2 ^ 24)
   \<and> round32 (1 / 2 ^ 25 - (1 - 1 / 2 ^ 24)) = Fin (- (1 - 1 / 2 ^ 23))
   \<and> update_coordinates
        (tri_map\<lparr>coordinates := [[0, 0, 0], [1 / 2 ^ 25, 0, 0], [1 - 1 / 2 ^ 24, 0, 0]]\<rparr>)
        1 [0, 1, 2] 1 =
     (Inr (), tri_map\<lparr>coordinates :=
        [[1 / 2 ^ 25, 0, 0], [1 / 2 ^ 25, 0, 0], [1 / 2 ^ 24, 0, 0]]\<rparr>)"
  by (simp add: tri_map_def init_def update_coordinates_def tensor_defs float_defs)

subsection \<open>Convergence metric\<close>

lemma column_ok:
  "\<forall>r\<in>set rows. d < length r \<Longrightarrow> column d rows = Inr (map (\<lambda>r. r ! d) rows)"
  by (auto simp: column_def list_ex_iff)

lemma column_length: "column d rows = Inr col \<Longrightarrow> length col = length rows"
  by (auto simp: column_def split: if_splits)

lemma count_embedded_bounds:
  "count_embedded data_ref neurons ds acc = Inr k \<Longrightarrow> acc \<le> k \<and> k \<le> acc + length ds"
proof (induction ds arbitrary: acc)
  case Nil
  then show ?case by simp
next
  case (Cons d ds)
  then show ?case
    by (fastforce split: sum.splits if_splits)
qed

lemma count_embedded_none:
  "\<forall>d\<in>set ds. feature_embedded data_ref neurons d = Inr False \<Longrightarrow>
   count_embedded data_ref neurons ds acc = Inr acc"
  by (induction ds arbitrary: acc) auto

lemma count_embedded_all:
  "\<forall>d\<in>set ds. feature_embedded data_ref neurons d = Inr True \<Longrightarrow>
   count_embedded data_ref neurons ds acc = Inr (acc + length ds)"
  by (induction ds arbitrary: acc) auto

lemma calc_convergence_result:
  assumes "calc_convergence s ref sig = (Inr cv, s')"
  shows "s' = s\<lparr>last_cv := cv\<rparr>"
  using assms by (auto simp: calc_convergence_def Let_def split: sum.splits if_splits)

text \<open>
  Claim C10. A call of \<open>calc_convergence\<close> either raises and leaves the map as it
  was, or returns \<open>k / D\<close> for a whole number \<open>k\<close> with \<open>0 \<le> k \<le> D\<close> and leaves the
  map as it was but for \<open>last_cv\<close>, which holds the returned value: weights,
  coordinates, learning rate and radius are not written.
\<close>

theorem calc_convergence_frame:
  "(\<exists>e. calc_convergence st data_ref significance = (Inl e, st))
   \<or> (\<exists>k. k \<le> input_dim st \<and> 0 < input_dim st
          \<and> calc_convergence st data_ref significance =
              (Inr (real k / real (input_dim st)),
               st\<lparr>last_cv := real k / real (input_dim st)\<rparr>))"
proof (cases "count_embedded data_ref (weights st) [0..<input_dim st] 0")
  case (Inl e)
  then show ?thesis by (simp add: calc_convergence_def)
next
  case (Inr k)
  from count_embedded_bounds [OF this] have "k \<le> input_dim st" by simp
  with Inr show ?thesis
    by (cases "input_dim st = 0") (auto simp: calc_convergence_def Let_def)
qed

text \<open>
  A run: against the reference rows \<open>[0]\<close> and \<open>[3]\<close> the one feature of the map with
  weights 0 and 1 is not embedded (the variances 9/2 and 1/2 differ by more than the
  factor 2); the call returns 0 and writes only \<open>last_cv\<close>.
\<close>

theorem calc_convergence_frame_witness:
  "calc_convergence pair_map [[0], [3]] 0.05 = (Inr 0, pair_map\<lparr>last_cv := 0\<rparr>)
   \<and> weights (snd (calc_convergence pair_map [[0], [3]] 0.05)) = weights pair_map
   \<and> coordinates (snd (calc_convergence pair_map [[0], [3]] 0.05)) = coordinates pair_map
   \<and> current_lr (snd (calc_convergence pair_map [[0], [3]] 0.05)) = current_lr pair_map
   \<and> current_radius (snd (calc_convergence pair_map [[0], [3]] 0.05)) = current_radius pair_map"
proof -
  have v: "calc_convergence pair_map [[0], [3]] 0.05 = (Inr 0, pair_map\<lparr>last_cv := 0\<rparr>)"
    by (simp add: pair_map_def init_def conv_defs float_defs power2_eq_square)
  from calc_convergence_frame [of pair_map "[[0], [3]]" "0.05"] v show ?thesis
    by simp
qed

text \<open>
  Claim C6. Two calls of \<open>calc_convergence\<close> on the same map and reference data that
  differ only in \<open>significance\<close> have the same outcome and leave the same map: the
  body compares with the fixed factor 1.96 and never reads the parameter.
\<close>

theorem significance_inert:
  "calc_convergence st data_ref significance1 = calc_convergence st data_ref significance2"
  by (simp add: calc_convergence_def)

text \<open>
  A run: the reference rows \<open>[0]\<close> and \<open>[1]\<close> against the weights 0 and 1, with
  the significance values 0.05 and 0.01.
\<close>

theorem significance_inert_witness:
  "calc_convergence pair_map [[0], [1]] 0.05 = calc_convergence pair_map [[0], [1]] 0.01
   \<and> calc_convergence pair_map [[0], [1]] 0.01 = (Inr 1, pair_map\<lparr>last_cv := 1\<rparr>)"
proof -
  have v: "calc_convergence pair_map [[0], [1]] 0.01 = (Inr 1, pair_map\<lparr>last_cv := 1\<rparr>)"
    by (simp add: pair_map_def init_def conv_defs float_defs power2_eq_square)
  from significance_inert [of pair_map "[[0], [1]]" "0.05" "0.01"] v show ?thesis
    by simp
qed

subsection \<open>Training loop: one sample\<close>

text \<open>
  One sample through the body of the loop: four all-zero nodes of one feature, the
  sample \<open>[10]\<close>, rate 1 and a radius that selects every node. The four distances tie
  and node 0 is the BMU; its weight becomes 10, the other weights stay 0, and every
  coordinate moves onto the coordinate of node 0.
\<close>

lemma train_sample_quad_map:
  "train_sample quad_map [10] =
     (Inr (), quad_map\<lparr>weights := [[10], [0], [0], [0]],
                coordinates := [[0, 0, 0], [0, 0, 0], [0, 0, 0], [0, 0, 0]]\<rparr>)"
  by (simp add: quad_map_def init_def tensor_defs sample_defs float_defs upt_rec)

subsection \<open>Training loop: batches\<close>

text \<open>
  The batches of a positive size, taken one after the other, are the shuffled data:
  the two nested loops process the samples of \<open>data_shuffled\<close> from index \<open>i\<close> on,
  one at a time, in order.
\<close>

lemma train_batch_append:
  "train_batch st (xs @ ys) =
     (case train_batch st xs of
        (Inl e, st') \<Rightarrow> (Inl e, st')
      | (Inr u, st') \<Rightarrow> train_batch st' ys)"
  by (induction xs arbitrary: st) (auto split: prod.splits sum.splits)

lemma train_batches_range:
  "0 < b \<Longrightarrow>
   train_batches st xs b (range_step i (length xs) b) = train_batch st (drop i xs)"
proof (induction i "length xs" b arbitrary: st rule: range_step.induct)
  case (1 i b)
  show ?case
  proof (cases "length xs \<le> i")
    case True
    then show ?thesis by (simp add: range_step.simps [of i])
  next
    case False
    have split: "drop i xs = take b (drop i xs) @ drop (i + b) xs"
      by (metis append_take_drop_id drop_drop add.commute)
    have "train_batch st (drop i xs) =
        (case train_batch st (take b (drop i xs)) of
           (Inl e, st') \<Rightarrow> (Inl e, st')
         | (Inr u, st') \<Rightarrow> train_batch st' (drop (i + b) xs))"
      by (subst split) (rule train_batch_append)
    moreover have "\<And>st'. train_batches st' xs b (range_step (i + b) (length xs) b)
        = train_batch st' (drop (i + b) xs)"
      using "1.prems" False by (intro "1.hyps") auto
    ultimately show ?thesis
      using False "1.prems" by (simp add: range_step.simps [of i] split: prod.splits sum.splits)
  qed
qed

lemma train_epoch_batch_size:
  assumes "1 \<le> batch_size" and "length perm = length data"
  shows "train_epoch st data perm batch_size ref min_lr min_radius =
         train_epoch st data perm 1 ref min_lr min_radius"
proof (cases "index_rows data perm")
  case (Inl e)
  then show ?thesis using assms by (simp add: train_epoch_def)
next
  case (Inr data_shuffled)
  then have len: "length data_shuffled = length data"
    using assms(2) by (auto simp: index_rows_def split: if_splits)
  have "train_batches st data_shuffled (nat batch_size) (range_step 0 (length data_shuffled) (nat batch_size))
      = train_batch st (drop 0 data_shuffled)"
    using assms(1) by (intro train_batches_range) simp
  moreover have "train_batches st data_shuffled (nat 1) (range_step 0 (length data_shuffled) (nat 1))
      = train_batch st (drop 0 data_shuffled)"
    by (intro train_batches_range) simp
  ultimately show ?thesis
    using assms(1) Inr len by (simp add: train_epoch_def)
qed

lemma train_epochs_batch_size:
  assumes "1 \<le> batch_size" and "\<forall>e. length (perm_of e) = length data"
  shows "train_epochs st data perm_of batch_size ref min_lr min_radius epoch k =
         train_epochs st data perm_of 1 ref min_lr min_radius epoch k"
proof (induction k arbitrary: st epoch)
  case 0
  show ?case by simp
next
  case (Suc k)
  from assms have "train_epoch st data (perm_of epoch) batch_size ref min_lr min_radius =
         train_epoch st data (perm_of epoch) 1 ref min_lr min_radius"
    by (intro train_epoch_batch_size) auto
  with Suc.IH show ?case by (simp split: prod.splits sum.splits)
qed

text \<open>
  Claim C9. For a batch size of at least 1 and the same draws (every shuffle of
  \<open>torch.randperm(n_samples)\<close> has \<open>n_samples\<close> entries), \<open>train\<close> with that batch size
  has the outcome and the final map of \<open>train\<close> with batch size 1, and so has every
  single epoch from every map: weights, coordinates and convergence values agree.
\<close>

theorem batch_size_only_granularity:
  assumes "1 \<le> batch_size" and "\<forall>e. length (perm_of e) = length data"
  shows "train st data epochs batch_size ref_sample_size min_lr min_radius choice perm_of =
         train st data epochs 1 ref_sample_size min_lr min_radius choice perm_of
       \<and> (\<forall>st' epoch ref.
            train_epoch st' data (perm_of epoch) batch_size ref min_lr min_radius =
            train_epoch st' data (perm_of epoch) 1 ref min_lr min_radius)"
proof -
  have "\<And>st' epoch ref.
            train_epoch st' data (perm_of epoch) batch_size ref min_lr min_radius =
            train_epoch st' data (perm_of epoch) 1 ref min_lr min_radius"
    using assms by (intro train_epoch_batch_size) auto
  moreover have "train st data epochs batch_size ref_sample_size min_lr min_radius choice perm_of =
         train st data epochs 1 ref_sample_size min_lr min_radius choice perm_of"
    unfolding train_def
    by (simp add: train_epochs_batch_size [OF assms] split: sum.splits option.splits)
  ultimately show ?thesis by blast
qed

text \<open>
  A run: two epochs over the samples \<open>[0]\<close> and \<open>[1]\<close>, shuffled to \<open>[1]\<close>, \<open>[0]\<close>, in
  one batch of two and in two batches of one.
\<close>

theorem batch_size_only_granularity_witness:
  "(1 :: int) \<le> 2
   \<and> train pair_map [[0], [1]] 2 2 None 0.01 0.01 [] (\<lambda>e. [1, 0]) =
       train pair_map [[0], [1]] 2 1 None 0.01 0.01 [] (\<lambda>e. [1, 0])
   \<and> train pair_map [[0], [1]] 2 1 None 0.01 0.01 [] (\<lambda>e. [1, 0]) =
       (Inr (), pair_map\<lparr>coordinates := [[1 / 2, 0, 0], [3 / 4, 0, 0]], current_lr := 1 / 100,
          current_radius := 1 / 100, last_cv := 1\<rparr>)"
proof -
  let ?st1 = "pair_map\<lparr>coordinates := [[1 / 2, 0, 0], [3 / 4, 0, 0]], current_lr := 1 / 100,
          current_radius := 1 / 100, last_cv := 1\<rparr>"
  have h1: "(1 :: int) \<le> 2" by simp
  have h2: "\<forall>e. length ((\<lambda>e. [1, 0 :: nat]) e) = length [[0 :: real], [1]]" by simp
  have e1: "train_epoch pair_map [[0], [1]] [1, 0] 1 [[0], [1]] 0.01 0.01 = (Inr (), ?st1)"
    by (simp add: pair_map_def init_def tensor_defs sample_defs conv_defs float_defs
        train_epoch_def index_rows_def range_step.simps decay_def power2_eq_square)
  have e2: "train_epoch ?st1 [[0], [1]] [1, 0] 1 [[0], [1]] 0.01 0.01 = (Inr (), ?st1)"
    by (simp add: pair_map_def init_def tensor_defs sample_defs conv_defs float_defs
        train_epoch_def index_rows_def range_step.simps decay_def power2_eq_square)
  have n: "nat 2 = Suc (Suc 0)" by simp
  have v: "train pair_map [[0], [1]] 2 1 None 0.01 0.01 [] (\<lambda>e. [1, 0]) = (Inr (), ?st1)"
    using e1 e2 unfolding train_def n by simp
  from batch_size_only_granularity [OF h1 h2, of pair_map 2 None "0.01" "0.01" "[]"] h1 v
  show ?thesis by simp
qed

subsection \<open>Training loop: decay schedule\<close>

text \<open>The per-sample operations and the loops over them do not write the initial rates.\<close>

lemma update_weights_keeps:
  "update_weights st b x lr = (r, st') \<Longrightarrow>
   initial_lr st' = initial_lr st \<and> initial_radius st' = initial_radius st"
  by (auto simp: update_weights_def split: sum.splits if_splits)

lemma update_coordinates_keeps:
  "update_coordinates st b ns lr = (r, st') \<Longrightarrow>
   initial_lr st' = initial_lr st \<and> initial_radius st' = initial_radius st"
  by (auto simp: update_coordinates_def split: prod.splits if_splits)

lemma find_bmu_keeps: "find_bmu st x = (r, st') \<Longrightarrow> st' = st"
  by (auto simp: find_bmu_def split: sum.splits)

lemma train_sample_keeps:
  assumes "train_sample st x = (r, st')"
  shows "initial_lr st' = initial_lr st \<and> initial_radius st' = initial_radius st"
proof (cases "find_bmu st x")
  case (Pair o1 s1)
  note fb = find_bmu_keeps [OF Pair]
  show ?thesis
  proof (cases o1)
    case (Inl e)
    with assms Pair fb show ?thesis by (simp add: train_sample_def)
  next
    case (Inr bmu_idx)
    show ?thesis
    proof (cases "neighbors st bmu_idx")
      case (Inl e)
      with assms Pair fb Inr show ?thesis by (simp add: train_sample_def)
    next
      case nb: (Inr nbrs)
      obtain o2 s2 where uw: "update_weights st bmu_idx x (current_lr st) = (o2, s2)"
        by (cases "update_weights st bmu_idx x (current_lr st)") auto
      note k2 = update_weights_keeps [OF uw]
      show ?thesis
      proof (cases o2)
        case (Inl e)
        with assms Pair fb Inr nb uw k2 show ?thesis by (simp add: train_sample_def)
      next
        case u: (Inr u)
        with assms Pair fb Inr nb uw
        have "update_coordinates s2 bmu_idx nbrs (current_lr s2) = (r, st')"
          by (simp add: train_sample_def)
        from update_coordinates_keeps [OF this] k2 show ?thesis by simp
      qed
    qed
  qed
qed

lemma train_batch_keeps:
  "train_batch st xs = (r, st') \<Longrightarrow>
   initial_lr st' = initial_lr st \<and> initial_radius st' = initial_radius st"
proof (induction xs arbitrary: st)
  case Nil
  then show ?case by simp
next
  case (Cons x xs)
  obtain o1 s1 where ts: "train_sample st x = (o1, s1)"
    by (cases "train_sample st x") auto
  note k = train_sample_keeps [OF ts]
  show ?case
  proof (cases o1)
    case (Inl e)
    with Cons.prems ts k show ?thesis by simp
  next
    case (Inr u)
    with Cons.prems ts have "train_batch s1 xs = (r, st')" by simp
    from Cons.IH [OF this] k show ?thesis by simp
  qed
qed

lemma train_batches_keeps:
  "train_batches st xs b is = (r, st') \<Longrightarrow>
   initial_lr st' = initial_lr st \<and> initial_radius st' = initial_radius st"
proof (induction "is" arbitrary: st)
  case Nil
  then show ?case by simp
next
  case (Cons i "is")
  obtain o1 s1 where tb: "train_batch st (take b (drop i xs)) = (o1, s1)"
    by (cases "train_batch st (take b (drop i xs))") auto
  note k = train_batch_keeps [OF tb]
  show ?case
  proof (cases o1)
    case (Inl e)
    with Cons.prems tb k show ?thesis by simp
  next
    case (Inr u)
    with Cons.prems tb have "train_batches s1 xs b is = (r, st')" by simp
    from Cons.IH [OF this] k show ?thesis by simp
  qed
qed

text \<open>
  An epoch that does not raise ends with the call of \<open>calc_convergence\<close> and the decay
  computed from its value.
\<close>

lemma train_epoch_success:
  assumes "train_epoch st data perm b ref min_lr min_radius = (Inr (), st1)"
  shows "\<exists>s cv. initial_lr s = initial_lr st \<and> initial_radius s = initial_radius st
           \<and> calc_convergence s ref 0.05 = (Inr cv, s\<lparr>last_cv := cv\<rparr>)
           \<and> st1 = decay (s\<lparr>last_cv := cv\<rparr>) cv min_lr min_radius"
proof -
  from assms obtain data_shuffled where ds: "index_rows data perm = Inr data_shuffled"
    by (auto simp: train_epoch_def split: sum.splits)
  define idx where "idx = (if b < 0 then [] else range_step 0 (length data) (nat b))"
  from assms ds obtain s where s: "train_batches st data_shuffled (nat b) idx = (Inr (), s)"
    by (auto simp: train_epoch_def idx_def split: sum.splits prod.splits if_splits)
  from assms ds s obtain cv s2 where cv: "calc_convergence s ref 0.05 = (Inr cv, s2)"
    and st1: "st1 = decay s2 cv min_lr min_radius"
    by (auto simp: train_epoch_def idx_def split: sum.splits prod.splits if_splits)
  from calc_convergence_result [OF cv] have s2: "s2 = s\<lparr>last_cv := cv\<rparr>" .
  from train_batches_keeps [OF s]
  have "initial_lr s = initial_lr st \<and> initial_radius s = initial_radius st" by simp
  with cv st1 s2 show ?thesis by blast
qed

text \<open>Every run of \<open>train\<close> of one epoch or more that returns ends above the floors.\<close>

lemma train_epochs_floors:
  "train_epochs st data perm_of b ref min_lr min_radius epoch (Suc k) = (Inr (), st') \<Longrightarrow>
   min_lr \<le> current_lr st' \<and> min_radius \<le> current_radius st'"
proof (induction k arbitrary: st epoch)
  case 0
  then have "train_epoch st data (perm_of epoch) b ref min_lr min_radius = (Inr (), st')"
    by (auto split: prod.splits sum.splits)
  from train_epoch_success [OF this] show ?case
    by (auto simp: decay_def)
next
  case (Suc k)
  from Suc.prems obtain s1 where
    "train_epochs s1 data perm_of b ref min_lr min_radius (Suc epoch) (Suc k) = (Inr (), st')"
    by (auto split: prod.splits sum.splits)
  from Suc.IH [OF this] show ?case .
qed

lemma train_floors:
  assumes "train st data epochs b ref_sample_size min_lr min_radius choice perm_of = (Inr (), st')"
    and "1 \<le> epochs"
  shows "min_lr \<le> current_lr st' \<and> min_radius \<le> current_radius st'"
proof -
  from assms(2) obtain k where k: "nat epochs = Suc k"
    by (cases "nat epochs") auto
  from assms(1) obtain ref where
    "train_epochs st data perm_of b ref min_lr min_radius 1 (Suc k) = (Inr (), st')"
    unfolding train_def k by (auto split: sum.splits)
  from train_epochs_floors [OF this] show ?thesis .
qed

text \<open>
  Claim C3, as the code has it. Let two consecutive epochs of \<open>train\<close> return, the first from the map
  \<open>st\<close> to \<open>st1\<close>, the second from \<open>st1\<close> to \<open>st2\<close>. The first ends with the call of
  \<open>calc_convergence\<close> and the decay from its value \<open>cv\<close> (kept in \<open>last_cv\<close>): the
  learning rate is \<open>max(min_lr, initial_lr * (1 - cv))\<close> and the radius
  \<open>max(min_radius, initial_radius * (1 - cv))\<close>. After either epoch both are at least
  their floors. For non-negative initial rate and radius, when the convergence value
  of the second epoch is not below that of the first, the learning rate and the radius
  after the second epoch are not above those after the first.
\<close>

theorem decay_schedule:
  assumes "train_epoch st data perm1 batch_size ref_data_np min_lr min_radius = (Inr (), st1)"
    and "train_epoch st1 data perm2 batch_size ref_data_np min_lr min_radius = (Inr (), st2)"
  shows "(\<exists>s cv. calc_convergence s ref_data_np 0.05 = (Inr cv, s\<lparr>last_cv := cv\<rparr>)
            \<and> st1 = decay (s\<lparr>last_cv := cv\<rparr>) cv min_lr min_radius)
       \<and> current_lr st1 = max min_lr (initial_lr st * (1 - last_cv st1))
       \<and> current_radius st1 = max min_radius (initial_radius st * (1 - last_cv st1))
       \<and> min_lr \<le> current_lr st1 \<and> min_radius \<le> current_radius st1
       \<and> min_lr \<le> current_lr st2 \<and> min_radius \<le> current_radius st2
       \<and> (0 \<le> initial_lr st \<and> last_cv st1 \<le> last_cv st2 \<longrightarrow> current_lr st2 \<le> current_lr st1)
       \<and> (0 \<le> initial_radius st \<and> last_cv st1 \<le> last_cv st2 \<longrightarrow>
            current_radius st2 \<le> current_radius st1)"
proof -
  from train_epoch_success [OF assms(1)] obtain s cv where
    s: "initial_lr s = initial_lr st" "initial_radius s = initial_radius st"
    and cv: "calc_convergence s ref_data_np 0.05 = (Inr cv, s\<lparr>last_cv := cv\<rparr>)"
    and st1: "st1 = decay (s\<lparr>last_cv := cv\<rparr>) cv min_lr min_radius"
    by blast
  from train_epoch_success [OF assms(2)] obtain s' cv' where
    s': "initial_lr s' = initial_lr st1" "initial_radius s' = initial_radius st1"
    and st2: "st2 = decay (s'\<lparr>last_cv := cv'\<rparr>) cv' min_lr min_radius"
    by blast
  have f1: "last_cv st1 = cv" "current_lr st1 = max min_lr (initial_lr st * (1 - cv))"
    "current_radius st1 = max min_radius (initial_radius st * (1 - cv))"
    "initial_lr st1 = initial_lr st" "initial_radius st1 = initial_radius st"
    using s by (simp_all add: st1 decay_def)
  have f2: "last_cv st2 = cv'" "current_lr st2 = max min_lr (initial_lr st * (1 - cv'))"
    "current_radius st2 = max min_radius (initial_radius st * (1 - cv'))"
    using s' f1(4,5) by (simp_all add: st2 decay_def)
  have mono_lr: "0 \<le> initial_lr st \<and> cv \<le> cv' \<longrightarrow>
      max min_lr (initial_lr st * (1 - cv')) \<le> max min_lr (initial_lr st * (1 - cv))"
  proof
    assume h: "0 \<le> initial_lr st \<and> cv \<le> cv'"
    then have "initial_lr st * (1 - cv') \<le> initial_lr st * (1 - cv)"
      by (intro mult_left_mono) auto
    then show "max min_lr (initial_lr st * (1 - cv')) \<le> max min_lr (initial_lr st * (1 - cv))"
      by auto
  qed
  have mono_r: "0 \<le> initial_radius st \<and> cv \<le> cv' \<longrightarrow>
      max min_radius (initial_radius st * (1 - cv')) \<le> max min_radius (initial_radius st * (1 - cv))"
  proof
    assume h: "0 \<le> initial_radius st \<and> cv \<le> cv'"
    then have "initial_radius st * (1 - cv') \<le> initial_radius st * (1 - cv)"
      by (intro mult_left_mono) auto
    then show "max min_radius (initial_radius st * (1 - cv')) \<le> max min_radius (initial_radius st * (1 - cv))"
      by auto
  qed
  have ex: "\<exists>s cv. calc_convergence s ref_data_np 0.05 = (Inr cv, s\<lparr>last_cv := cv\<rparr>)
            \<and> st1 = decay (s\<lparr>last_cv := cv\<rparr>) cv min_lr min_radius"
    using cv st1 by blast
  show ?thesis
    using ex mono_lr mono_r unfolding f1 f2 by simp
qed

text \<open>
  A run: two epochs on the samples \<open>[0]\<close> and \<open>[1]\<close> with the floors 1/100. Both reach
  convergence 1, and rate and radius drop from 1/2 and 2 to the floors and stay there.
\<close>

theorem decay_schedule_witness:
  "train_epoch pair_map [[0], [1]] [0, 1] 1 [[0], [1]] 0.01 0.01 =
     (Inr (), pair_map\<lparr>coordinates := [[1 / 4, 0, 0], [1 / 2, 0, 0]], current_lr := 1 / 100,
        current_radius := 1 / 100, last_cv := 1\<rparr>)
   \<and> train_epoch (pair_map\<lparr>coordinates := [[1 / 4, 0, 0], [1 / 2, 0, 0]], current_lr := 1 / 100,
        current_radius := 1 / 100, last_cv := 1\<rparr>) [[0], [1]] [1, 0] 1 [[0], [1]] 0.01 0.01 =
     (Inr (), pair_map\<lparr>coordinates := [[1 / 4, 0, 0], [1 / 2, 0, 0]], current_lr := 1 / 100,
        current_radius := 1 / 100, last_cv := 1\<rparr>)
   \<and> max (1 / 100) (initial_lr pair_map * (1 - 1)) = (1 / 100 :: real)
   \<and> (0 :: real) \<le> initial_lr pair_map \<and> (0 :: real) \<le> initial_radius pair_map"
proof -
  let ?st1 = "pair_map\<lparr>coordinates := [[1 / 4, 0, 0], [1 / 2, 0, 0]], current_lr := 1 / 100,
        current_radius := 1 / 100, last_cv := 1\<rparr>"
  have e1: "train_epoch pair_map [[0], [1]] [0, 1] 1 [[0], [1]] 0.01 0.01 = (Inr (), ?st1)"
    by (simp add: pair_map_def init_def tensor_defs sample_defs conv_defs float_defs
        train_epoch_def index_rows_def range_step.simps decay_def power2_eq_square)
  have e2: "train_epoch ?st1 [[0], [1]] [1, 0] 1 [[0], [1]] 0.01 0.01 = (Inr (), ?st1)"
    by (simp add: pair_map_def init_def tensor_defs sample_defs conv_defs float_defs
        train_epoch_def index_rows_def range_step.simps decay_def power2_eq_square)
  have i: "initial_lr pair_map = 1 / 2" "initial_radius pair_map = 2"
    by (simp_all add: pair_map_def init_def)
  from decay_schedule [OF e1 e2] e1 e2 show ?thesis
    by (simp add: i)
qed

text \<open>
  Claim C3 as stated fails for a negative initial radius, which \<open>__init__\<close>
  accepts and the neighbour selection squares: two epochs on the samples \<open>[0]\<close> and
  \<open>[2]\<close>, which are the reference too, from weights -1 and 3 with the initial radius
  -2 and the floor -10. The first epoch ends with convergence 0 and the radius
  \<open>max(-10, -2 * 1) = -2\<close>, the second with convergence 1 and the radius
  \<open>max(-10, -2 * 0) = 0\<close>: the convergence value has not decreased, and the radius
  has risen.
\<close>

theorem decay_schedule_counterexample:
  "initial_radius neg_map = - 2
   \<and> train_epoch neg_map [[0], [2]] [0, 1] 1 [[0], [2]] (1 / 2) (- 10) =
     (Inr (), neg_map\<lparr>weights := [[- 1 / 2], [5 / 2]],
        coordinates := [[1 / 4, 0, 0], [1 / 2, 0, 0]], last_cv := 0\<rparr>)
   \<and> train_epoch (neg_map\<lparr>weights := [[- 1 / 2], [5 / 2]],
        coordinates := [[1 / 4, 0, 0], [1 / 2, 0, 0]], last_cv := 0\<rparr>)
        [[0], [2]] [0, 1] 1 [[0], [2]] (1 / 2) (- 10) =
     (Inr (), neg_map\<lparr>weights := [[- 1 / 4], [9 / 4]],
        coordinates := [[5 / 16, 0, 0], [3 / 8, 0, 0]], current_radius := 0, last_cv := 1\<rparr>)
   \<and> last_cv (neg_map\<lparr>weights := [[- 1 / 2], [5 / 2]],
        coordinates := [[1 / 4, 0, 0], [1 / 2, 0, 0]], last_cv := 0\<rparr>)
      \<le> last_cv (neg_map\<lparr>weights := [[- 1 / 4], [9 / 4]],
        coordinates := [[5 / 16, 0, 0], [3 / 8, 0, 0]], current_radius := 0, last_cv := 1\<rparr>)
   \<and> current_radius (neg_map\<lparr>weights := [[- 1 / 2], [5 / 2]],
        coordinates := [[1 / 4, 0, 0], [1 / 2, 0, 0]], last_cv := 0\<rparr>)
      < current_radius (neg_map\<lparr>weights := [[- 1 / 4], [9 / 4]],
        coordinates := [[5 / 16, 0, 0], [3 / 8, 0, 0]], current_radius := 0, last_cv := 1\<rparr>)"
  by (simp add: neg_map_def init_def tensor_defs sample_defs conv_defs float_defs
      train_epoch_def index_rows_def range_step.simps decay_def power2_eq_square)

subsection \<open>Degenerate samples\<close>

lemma var_diff_ok_NaN: "var_diff_ok NaN v = False" "var_diff_ok v NaN = False"
  by (cases v; simp add: var_diff_ok_def var_ratio_def)+

lemma np_var_short:
  assumes "length xs \<le> 1" and "\<forall>v\<in>set xs. is_f32 v"
  shows "np_var xs = NaN"
proof (cases xs)
  case Nil
  then show ?thesis
    by (simp add: np_var_def np_mean_def fl_sum_def round32_0 inf_of_sign_def)
next
  case (Cons v vs)
  with assms have xs: "xs = [v]" and v: "round32 v = Fin v"
    by (simp_all add: is_f32_def)
  show ?thesis
    by (simp add: xs np_var_def np_mean_def fl_sum_def round32_0 round32_1 v fl_sub_def
        inf_of_sign_def)
qed

lemma column_entries:
  assumes "column d rows = Inr col" and "\<forall>r\<in>set rows. \<forall>v\<in>set r. is_f32 v"
  shows "\<forall>v\<in>set col. is_f32 v"
proof -
  from assms(1) have col: "col = map (\<lambda>r. r ! d) rows" and ok: "\<forall>r\<in>set rows. d < length r"
    by (auto simp: column_def list_ex_iff split: if_splits)
  with assms(2) show ?thesis by auto
qed

lemma feature_short:
  assumes "(length data_ref \<le> 1 \<and> (\<forall>r\<in>set data_ref. \<forall>v\<in>set r. is_f32 v))
         \<or> (length neurons \<le> 1 \<and> (\<forall>w\<in>set neurons. \<forall>v\<in>set w. is_f32 v))"
    and "feature_embedded data_ref neurons d = Inr ok"
  shows "\<not> ok \<and> (\<exists>dcol ncol. column d data_ref = Inr dcol \<and> column d neurons = Inr ncol
            \<and> (np_var dcol = NaN \<or> np_var ncol = NaN))"
proof -
  from assms(2) obtain dcol ncol where c1: "column d data_ref = Inr dcol"
    and c2: "column d neurons = Inr ncol"
    and ok: "ok = (mean_diff_ok (np_mean dcol) (np_mean ncol) (np_var dcol) (np_var ncol)
                      (length data_ref) (length neurons)
                    \<and> var_diff_ok (np_var dcol) (np_var ncol))"
    by (auto simp: feature_embedded_def split: sum.splits)
  from assms(1) have "np_var dcol = NaN \<or> np_var ncol = NaN"
  proof
    assume h: "length data_ref \<le> 1 \<and> (\<forall>r\<in>set data_ref. \<forall>v\<in>set r. is_f32 v)"
    with column_length [OF c1] column_entries [OF c1] have "np_var dcol = NaN"
      by (intro np_var_short) auto
    then show ?thesis by simp
  next
    assume h: "length neurons \<le> 1 \<and> (\<forall>w\<in>set neurons. \<forall>v\<in>set w. is_f32 v)"
    with column_length [OF c2] column_entries [OF c2] have "np_var ncol = NaN"
      by (intro np_var_short) auto
    then show ?thesis by simp
  qed
  moreover from this ok have "\<not> ok" by (auto simp: var_diff_ok_NaN)
  ultimately show ?thesis using c1 c2 by blast
qed

lemma count_embedded_short:
  assumes "(length data_ref \<le> 1 \<and> (\<forall>r\<in>set data_ref. \<forall>v\<in>set r. is_f32 v))
         \<or> (length neurons \<le> 1 \<and> (\<forall>w\<in>set neurons. \<forall>v\<in>set w. is_f32 v))"
  shows "count_embedded data_ref neurons ds acc = Inr k \<Longrightarrow> k = acc"
proof (induction ds arbitrary: acc)
  case Nil
  then show ?case by simp
next
  case (Cons d ds)
  from Cons.prems obtain ok where f: "feature_embedded data_ref neurons d = Inr ok"
    and rest: "count_embedded data_ref neurons ds (if ok then acc + 1 else acc) = Inr k"
    by (auto split: sum.splits)
  from feature_short [OF assms f] have "\<not> ok" by simp
  with rest Cons.IH [of acc] show ?case by simp
qed

lemma calc_convergence_short:
  assumes "(length data_ref \<le> 1 \<and> (\<forall>r\<in>set data_ref. \<forall>v\<in>set r. is_f32 v))
         \<or> (length (weights s) \<le> 1 \<and> (\<forall>w\<in>set (weights s). \<forall>v\<in>set w. is_f32 v))"
    and "calc_convergence s data_ref significance = (Inr cv, s')"
  shows "cv = 0"
proof -
  from assms(2) obtain k where k: "count_embedded data_ref (weights s) [0..<input_dim s] 0 = Inr k"
    and cv: "cv = real k / real (input_dim s)"
    by (auto simp: calc_convergence_def Let_def split: sum.splits if_splits)
  from count_embedded_short [OF assms(1) k] cv show ?thesis by simp
qed

text \<open>
  Claim C8, as the code has it. The claim asks for an explicit failure when the
  reference has at most one row or the map at most one node. The code has no such
  check: numpy's unbiased variance of the short sample is NaN, every comparison with it
  is false, no feature counts as embedded, and the call returns 0.0 and stores it. The
  decay from the value 0 sets rate and radius to the larger of floor and initial value,
  and so ends every epoch of \<open>train\<close> that returns with a reference of at most one
  row. Stated for a reference with a row, a short sample of float32 numbers, a map of
  positive dimension and arrays that have the \<open>D\<close> columns.
\<close>

theorem degenerate_sample_no_failure:
  assumes "data_ref \<noteq> []"
    and "(length data_ref \<le> 1 \<and> (\<forall>r\<in>set data_ref. \<forall>v\<in>set r. is_f32 v))
         \<or> (length (weights st) \<le> 1 \<and> (\<forall>w\<in>set (weights st). \<forall>v\<in>set w. is_f32 v))"
    and "0 < input_dim st"
    and "\<forall>r\<in>set data_ref. input_dim st \<le> length r"
    and "\<forall>w\<in>set (weights st). input_dim st \<le> length w"
  shows "calc_convergence st data_ref significance = (Inr 0, st\<lparr>last_cv := 0\<rparr>)
       \<and> (\<forall>d<input_dim st. np_var (map (\<lambda>r. r ! d) data_ref) = NaN
                            \<or> np_var (map (\<lambda>w. w ! d) (weights st)) = NaN)
       \<and> decay (st\<lparr>last_cv := 0\<rparr>) 0 min_lr min_radius =
           st\<lparr>last_cv := 0, current_lr := max min_lr (initial_lr st),
              current_radius := max min_radius (initial_radius st)\<rparr>
       \<and> (length data_ref \<le> 1 \<and> (\<forall>r\<in>set data_ref. \<forall>v\<in>set r. is_f32 v) \<longrightarrow>
            (\<forall>s data perm batch_size s1.
               train_epoch s data perm batch_size data_ref min_lr min_radius = (Inr (), s1) \<longrightarrow>
               last_cv s1 = 0
               \<and> current_lr s1 = max min_lr (initial_lr s)
               \<and> current_radius s1 = max min_radius (initial_radius s)))"
proof -
  have emb: "feature_embedded data_ref (weights st) d = Inr False
      \<and> (np_var (map (\<lambda>r. r ! d) data_ref) = NaN \<or> np_var (map (\<lambda>w. w ! d) (weights st)) = NaN)"
    if d: "d < input_dim st" for d
  proof -
    from d assms(4) have c1: "column d data_ref = Inr (map (\<lambda>r. r ! d) data_ref)"
      by (intro column_ok) auto
    from d assms(5) have c2: "column d (weights st) = Inr (map (\<lambda>r. r ! d) (weights st))"
      by (intro column_ok) auto
    obtain ok where ok: "feature_embedded data_ref (weights st) d = Inr ok"
      by (simp add: feature_embedded_def c1 c2)
    from feature_short [OF assms(2) ok] c1 c2 ok show ?thesis by auto
  qed
  then have "count_embedded data_ref (weights st) [0..<input_dim st] 0 = Inr 0"
    by (intro count_embedded_none) auto
  with assms(3) have a: "calc_convergence st data_ref significance = (Inr 0, st\<lparr>last_cv := 0\<rparr>)"
    by (simp add: calc_convergence_def)
  have b: "decay (st\<lparr>last_cv := 0\<rparr>) 0 min_lr min_radius =
           st\<lparr>last_cv := 0, current_lr := max min_lr (initial_lr st),
              current_radius := max min_radius (initial_radius st)\<rparr>"
    by (simp add: decay_def)
  have c: "last_cv s1 = 0 \<and> current_lr s1 = max min_lr (initial_lr s)
               \<and> current_radius s1 = max min_radius (initial_radius s)"
    if short: "length data_ref \<le> 1 \<and> (\<forall>r\<in>set data_ref. \<forall>v\<in>set r. is_f32 v)"
      and run: "train_epoch s data perm batch_size data_ref min_lr min_radius = (Inr (), s1)"
    for s data perm batch_size s1
  proof -
    from train_epoch_success [OF run] obtain s' cv where
      i: "initial_lr s' = initial_lr s" "initial_radius s' = initial_radius s"
      and cv: "calc_convergence s' data_ref 0.05 = (Inr cv, s'\<lparr>last_cv := cv\<rparr>)"
      and s1: "s1 = decay (s'\<lparr>last_cv := cv\<rparr>) cv min_lr min_radius"
      by blast
    from short have "(length data_ref \<le> 1 \<and> (\<forall>r\<in>set data_ref. \<forall>v\<in>set r. is_f32 v))
         \<or> (length (weights s') \<le> 1 \<and> (\<forall>w\<in>set (weights s'). \<forall>v\<in>set w. is_f32 v))"
      by simp
    from calc_convergence_short [OF this cv] have "cv = 0" .
    with s1 i show ?thesis by (simp add: decay_def)
  qed
  from a emb b c show ?thesis by blast
qed

text \<open>
  A run of the theorem: a reference of the single row \<open>[3]\<close>, in a call of
  \<open>calc_convergence\<close> and in an epoch of \<open>train\<close> on the one sample \<open>[3]\<close>.
\<close>

theorem degenerate_sample_no_failure_witness:
  "[[3 :: real]] \<noteq> []
   \<and> length [[3 :: real]] \<le> 1
   \<and> is_f32 3
   \<and> 0 < input_dim pair_map
   \<and> np_var [3] = NaN
   \<and> calc_convergence pair_map [[3]] 0.05 = (Inr 0, pair_map\<lparr>last_cv := 0\<rparr>)
   \<and> train_epoch pair_map [[3]] [0] 1 [[3]] 0.01 0.01 =
       (Inr (), pair_map\<lparr>weights := [[0], [2]], coordinates := [[1 / 2, 0, 0], [1, 0, 0]],
          last_cv := 0\<rparr>)
   \<and> current_lr pair_map = max 0.01 (initial_lr pair_map)
   \<and> current_radius pair_map = max 0.01 (initial_radius pair_map)"
proof -
  have h0: "[[3 :: real]] \<noteq> []" by simp
  have f3: "is_f32 3" by (simp add: float_defs)
  have h1: "(length [[3 :: real]] \<le> 1 \<and> (\<forall>r\<in>set [[3 :: real]]. \<forall>v\<in>set r. is_f32 v))
         \<or> (length (weights pair_map) \<le> 1
              \<and> (\<forall>w\<in>set (weights pair_map). \<forall>v\<in>set w. is_f32 v))"
    using f3 by simp
  have h2: "0 < input_dim pair_map" by (simp add: pair_map_def init_def)
  have h3: "\<forall>r\<in>set [[3 :: real]]. input_dim pair_map \<le> length r"
    by (simp add: pair_map_def init_def)
  have h4: "\<forall>w\<in>set (weights pair_map). input_dim pair_map \<le> length w"
    by (simp add: pair_map_def init_def)
  have e: "train_epoch pair_map [[3]] [0] 1 [[3]] 0.01 0.01 =
       (Inr (), pair_map\<lparr>weights := [[0], [2]], coordinates := [[1 / 2, 0, 0], [1, 0, 0]],
          last_cv := 0\<rparr>)"
    by (simp add: pair_map_def init_def tensor_defs sample_defs conv_defs float_defs
        train_epoch_def index_rows_def range_step.simps decay_def power2_eq_square)
  have i: "current_lr pair_map = max 0.01 (initial_lr pair_map)"
    "current_radius pair_map = max 0.01 (initial_radius pair_map)"
    by (simp_all add: pair_map_def init_def)
  have v: "np_var [3] = NaN"
    by (simp add: np_var_def np_mean_def fl_sum_def float_defs)
  from degenerate_sample_no_failure [OF h0 h1 h2 h3 h4, of "0.05" "0.01" "0.01"] h0 f3 h2 e i v
  show ?thesis by simp
qed

text \<open>
  Claim C8 as stated fails: with the one-row reference \<open>[[0]]\<close> and the two-node map
  the variance of the reference column is NaN, and the call returns 0.0 with no
  exception.
\<close>

theorem degenerate_sample_counterexample:
  "np_var [0] = NaN
   \<and> calc_convergence pair_map [[0]] 0.05 = (Inr 0, pair_map\<lparr>last_cv := 0\<rparr>)"
  by (simp add: pair_map_def init_def conv_defs float_defs)

subsection \<open>The map compared with itself\<close>

lemma var_ratio_self:
  assumes "1 / 10 ^ 9 \<le> v"
  shows "var_diff_ok (Fin v) (Fin v)"
proof -
  define eps :: real where "eps = 1 / 10 ^ 9"
  have eps: "0 < eps" by (simp add: eps_def)
  from assms have v: "eps \<le> v" by (simp add: eps_def)
  have pos: "0 < v + eps" using v eps by linarith
  define r where "r = v / (v + eps)"
  have lt: "r < 1" unfolding r_def using pos eps by (simp add: divide_less_eq)
  have half: "1 / 2 \<le> r" unfolding r_def using pos v by (simp add: le_divide_eq)
  have p: "0 < r + eps" using half eps by linarith
  have "1 \<le> 2 * r + 2 * eps" using half eps by linarith
  with p have le: "1 / (r + eps) \<le> 2" by (simp add: divide_le_eq algebra_simps)
  have ne: "v + eps \<noteq> 0" "r + eps \<noteq> 0" using pos p by simp_all
  have a: "fl_add Fin (Fin v) (Fin (1 / 10 ^ 9)) = Fin (v + eps)"
    by (simp add: eps_def)
  have b: "fl_div Fin (Fin v) (Fin (v + eps)) = Fin r"
    using ne by (simp add: r_def)
  have c: "fl_less (Fin r) (Fin 1)"
    using lt by simp
  have d: "fl_add Fin (Fin r) (Fin (1 / 10 ^ 9)) = Fin (r + eps)"
    by (simp add: eps_def)
  have e: "fl_div Fin (Fin 1) (Fin (r + eps)) = Fin (1 / (r + eps))"
    using ne by simp
  have "var_ratio (Fin v) (Fin v) = Fin (1 / (r + eps))"
    by (simp only: var_ratio_def Let_def a b c d e if_True)
  with le show ?thesis by (simp add: var_diff_ok_def)
qed

lemma mean_diff_ok_self:
  assumes "0 < v"
  shows "mean_diff_ok (Fin m) (Fin m) (Fin v) (Fin v) n n"
proof (cases "n = 0")
  case True
  with assms show ?thesis
    by (simp add: mean_diff_ok_def fl_sub_def inf_of_sign_def)
next
  case False
  with assms have "0 \<le> sqrt (v / real n + v / real n)" by simp
  with False show ?thesis
    by (simp add: mean_diff_ok_def fl_sub_def)
qed

text \<open>
  Claim C1, as the code has it. When the dimension is positive and every feature of
  the weights has a finite mean and a finite unbiased variance of at least \<open>1e-9\<close>,
  as numpy computes them in float32 (so the map has two nodes or more, and no square
  or sum overflows), \<open>calc_convergence\<close> on the map's own weights returns 1.0. The
  two \<open>1e-9\<close> guards of the variance ratio make a smaller variance fail the ratio
  test even against itself, and the claim says nothing about those.
\<close>

theorem self_reference_converged:
  assumes "0 < input_dim st"
    and "\<forall>d<input_dim st. \<exists>col m v. column d (weights st) = Inr col
            \<and> np_mean col = Fin m \<and> np_var col = Fin v \<and> 1 / 10 ^ 9 \<le> v"
  shows "calc_convergence st (weights st) significance = (Inr 1, st\<lparr>last_cv := 1\<rparr>)"
proof -
  have "feature_embedded (weights st) (weights st) d = Inr True" if d: "d < input_dim st" for d
  proof -
    from d assms(2) obtain col m v where col: "column d (weights st) = Inr col"
      and m: "np_mean col = Fin m"
      and v: "np_var col = Fin v" and big: "1 / 10 ^ 9 \<le> v" by blast
    from big have "0 < v" by (rule less_le_trans [rotated]) simp
    from mean_diff_ok_self [OF this] var_ratio_self [OF big]
    show ?thesis by (simp add: feature_embedded_def col m v)
  qed
  then have "count_embedded (weights st) (weights st) [0..<input_dim st] 0 = Inr (0 + length [0..<input_dim st])"
    by (intro count_embedded_all) auto
  with assms(1) show ?thesis by (simp add: calc_convergence_def)
qed

text \<open>
  A run of the theorem: the weights 0 and 1 have mean 1/2 and variance 1/2.
\<close>

theorem self_reference_converged_witness:
  "0 < input_dim pair_map
   \<and> column 0 (weights pair_map) = Inr [0, 1]
   \<and> np_mean [0, 1] = Fin (1 / 2)
   \<and> np_var [0, 1] = Fin (1 / 2)
   \<and> calc_convergence pair_map (weights pair_map) 0.05 = (Inr 1, pair_map\<lparr>last_cv := 1\<rparr>)"
proof -
  have h1: "0 < input_dim pair_map" by (simp add: pair_map_def init_def)
  have c: "column 0 (weights pair_map) = Inr [0, 1]"
    by (simp add: pair_map_def init_def column_def)
  have m: "np_mean [0, 1] = Fin (1 / 2)"
    by (simp add: np_mean_def fl_sum_def float_defs)
  have v: "np_var [0, 1] = Fin (1 / 2)"
    by (simp add: np_var_def np_mean_def fl_sum_def float_defs)
  have d: "input_dim pair_map = 1" by (simp add: pair_map_def init_def)
  have h2: "\<forall>d<input_dim pair_map. \<exists>col m v. column d (weights pair_map) = Inr col
            \<and> np_mean col = Fin m \<and> np_var col = Fin v \<and> 1 / 10 ^ 9 \<le> v"
  proof (intro allI impI)
    fix k assume "k < input_dim pair_map"
    then have k: "k = 0" by (simp add: d)
    have "column k (weights pair_map) = Inr [0, 1] \<and> np_mean [0, 1] = Fin (1 / 2)
        \<and> np_var [0, 1] = Fin (1 / 2) \<and> (1 :: real) / 10 ^ 9 \<le> 1 / 2"
      using c m v by (simp add: k)
    then show "\<exists>col m v. column k (weights pair_map) = Inr col
            \<and> np_mean col = Fin m \<and> np_var col = Fin v \<and> 1 / 10 ^ 9 \<le> v"
      by blast
  qed
  from self_reference_converged [OF h1 h2, of "0.05"] h1 c m v show ?thesis
    by simp
qed

text \<open>
  Claim C1 as stated fails on its own example: two all-zero nodes of three features,
  compared with themselves. Each variance is 0, the ratio \<open>0 / (0 + 1e-9)\<close> is 0, below
  1, and is replaced by \<open>1 / (0 + 1e-9)\<close>, far above 2: no feature is embedded and the
  call returns 0.0. It fails for a single all-zero node as well: the variance of one
  value is NaN, and the call returns 0.0.
\<close>

theorem self_reference_counterexample:
  "weights zero_map = [[0, 0, 0], [0, 0, 0]]
   \<and> input_dim zero_map = 3
   \<and> np_var [0, 0] = Fin 0
   \<and> var_ratio (Fin 0) (Fin 0) = Fin (10 ^ 9)
   \<and> calc_convergence zero_map (weights zero_map) 0.05 = (Inr 0, zero_map\<lparr>last_cv := 0\<rparr>)
   \<and> weights solo_map = [[0, 0, 0]]
   \<and> np_var [0] = NaN
   \<and> calc_convergence solo_map (weights solo_map) 0.05 = (Inr 0, solo_map\<lparr>last_cv := 0\<rparr>)"
  by (simp add: zero_map_def solo_map_def init_def conv_defs float_defs upt_rec)

text \<open>
  Weights of plus and minus \<open>2 ^ 100\<close>: the squares of the deviations overflow, the
  variance is an infinity, the ratio of the two infinities is NaN, and the metric on
  the map's own weights returns 0.0.
\<close>

lemma self_reference_overflow:
  "np_var [2 ^ 100, - (2 ^ 100)] = PInf
   \<and> calc_convergence big_map (weights big_map) 0.05 = (Inr 0, big_map\<lparr>last_cv := 0\<rparr>)"
  by (simp add: big_map_def init_def conv_defs float_defs)

subsection \<open>Inputs of the wrong length\<close>

lemma vsub_mismatch:
  "length a \<noteq> length b \<Longrightarrow> length a \<noteq> 1 \<Longrightarrow> length b \<noteq> 1 \<Longrightarrow> vsub a b = Inl RuntimeError"
  by (simp add: vsub_def broadcast_len_def)

lemma update_weights_mismatch:
  assumes "bmu_idx < length (weights st)"
    and "length x \<noteq> length (weights st ! bmu_idx)" and "length x \<noteq> 1"
  shows "update_weights st bmu_idx x lr = (Inl RuntimeError, st)"
proof (cases "length (weights st ! bmu_idx) = 1")
  case False
  with assms have "f32_sub x (weights st ! bmu_idx) = Inl RuntimeError"
    by (simp add: f32_sub_def broadcast_len_def)
  with assms(1) show ?thesis by (simp add: update_weights_def)
next
  case True
  then obtain d where d: "f32_sub x (weights st ! bmu_idx) = Inr d" and len: "length d = length x"
    using assms by (simp add: f32_sub_def broadcast_len_def expand_def)
  have "f32_iadd (weights st ! bmu_idx) (f32_scale lr d) = Inl RuntimeError"
    using True assms len by (simp add: f32_iadd_def f32_scale_def)
  with d assms(1) show ?thesis by (simp add: update_weights_def)
qed

lemma sequence_first_error:
  "rs \<noteq> [] \<Longrightarrow> \<forall>r\<in>set rs. r = Inl e \<Longrightarrow> sequence rs = Inl e"
  by (cases rs) auto

lemma euclidean_sq_mismatch:
  assumes "ws \<noteq> []" and "\<forall>w\<in>set ws. length w = n"
    and "length x \<noteq> n" and "length x \<noteq> 1" and "n \<noteq> 1"
  shows "euclidean_sq ws x = Inl RuntimeError"
proof -
  have "\<forall>r\<in>set (map (\<lambda>row. vsub row x) ws). r = Inl RuntimeError"
    using assms by (auto simp: vsub_mismatch)
  with assms(1) have "msub ws x = Inl RuntimeError"
    unfolding msub_def by (intro sequence_first_error) auto
  then show ?thesis by (simp add: euclidean_sq_def)
qed

lemma feature_embedded_error: "feature_embedded r n d = Inl e \<Longrightarrow> e = IndexError"
  by (auto simp: feature_embedded_def column_def split: sum.splits if_splits)

lemma count_embedded_error: "count_embedded r n ds acc = Inl e \<Longrightarrow> e = IndexError"
  by (induction ds arbitrary: acc) (auto split: sum.splits dest: feature_embedded_error)

lemma count_embedded_raises:
  "d \<in> set ds \<Longrightarrow> feature_embedded r n d = Inl e \<Longrightarrow> \<exists>e'. count_embedded r n ds acc = Inl e'"
  by (induction ds arbitrary: acc) (auto split: sum.splits)

lemma calc_convergence_short_row:
  assumes "\<exists>r\<in>set data_ref. length r < input_dim st"
  shows "calc_convergence st data_ref significance = (Inl IndexError, st)"
proof -
  from assms obtain r where r: "r \<in> set data_ref" "length r < input_dim st" by blast
  then have "column (length r) data_ref = Inl IndexError"
    by (auto simp: column_def list_ex_iff)
  then have "feature_embedded data_ref (weights st) (length r) = Inl IndexError"
    by (simp add: feature_embedded_def)
  moreover from r have "length r \<in> set [0..<input_dim st]" by simp
  ultimately obtain e' where e': "count_embedded data_ref (weights st) [0..<input_dim st] 0 = Inl e'"
    using count_embedded_raises by blast
  from count_embedded_error [OF e'] e' show ?thesis by (simp add: calc_convergence_def)
qed

lemma train_sample_mismatch:
  assumes "\<forall>w\<in>set (weights st). length w = input_dim st"
    and "length x \<noteq> input_dim st" and "length x \<noteq> 1"
  shows "\<exists>e. train_sample st x = (Inl e, st)"
proof (cases "find_bmu st x")
  case (Pair o1 s1)
  note fb = find_bmu_keeps [OF Pair]
  show ?thesis
  proof (cases o1)
    case (Inl e)
    with Pair fb show ?thesis by (simp add: train_sample_def)
  next
    case (Inr bmu_idx)
    show ?thesis
    proof (cases "neighbors st bmu_idx")
      case (Inl e)
      with Pair fb Inr show ?thesis by (simp add: train_sample_def)
    next
      case nb: (Inr nbrs)
      have "\<exists>e. update_weights st bmu_idx x (current_lr st) = (Inl e, st)"
      proof (cases "bmu_idx < length (weights st)")
        case True
        with assms have "length x \<noteq> length (weights st ! bmu_idx)" by simp
        from update_weights_mismatch [OF True this assms(3)] show ?thesis by blast
      next
        case False
        then show ?thesis by (simp add: update_weights_def)
      qed
      with Pair fb Inr nb show ?thesis by (auto simp: train_sample_def)
    qed
  qed
qed

text \<open>
  An input of one entry is broadcast: it is treated as the row that repeats the entry
  once per column.
\<close>

lemma f32_sub_broadcast:
  "f32_sub [v] w = f32_sub (replicate (length w) v) w"
proof (cases "length w = 1")
  case True
  then have "replicate (length w) v = [v]" by simp
  then show ?thesis by (simp only:)
next
  case False
  then show ?thesis by (simp add: f32_sub_def broadcast_len_def expand_def)
qed

lemma update_weights_broadcast:
  assumes "\<forall>w\<in>set (weights st). length w = input_dim st"
  shows "update_weights st bmu_idx [v] lr = update_weights st bmu_idx (replicate (input_dim st) v) lr"
proof (cases "bmu_idx < length (weights st)")
  case True
  with assms have "length (weights st ! bmu_idx) = input_dim st" by simp
  with f32_sub_broadcast [of v "weights st ! bmu_idx"] show ?thesis
    by (simp add: update_weights_def)
next
  case False
  then show ?thesis by (simp add: update_weights_def)
qed

lemma vsub_broadcast: "vsub row [v] = vsub row (replicate (length row) v)"
proof (cases "length row = 1")
  case True
  then have "replicate (length row) v = [v]" by simp
  then show ?thesis by (simp only:)
next
  case False
  then show ?thesis by (simp add: vsub_def broadcast_len_def expand_def)
qed

lemma euclidean_sq_broadcast:
  assumes "\<forall>w\<in>set ws. length w = n"
  shows "euclidean_sq ws [v] = euclidean_sq ws (replicate n v)"
proof -
  have "map (\<lambda>row. vsub row [v]) ws = map (\<lambda>row. vsub row (replicate n v)) ws"
    using assms by (intro map_cong) (auto simp: vsub_broadcast)
  then show ?thesis unfolding euclidean_sq_def msub_def by (simp only:)
qed

lemma train_sample_broadcast:
  assumes "\<forall>w\<in>set (weights st). length w = input_dim st"
    and "distance_metric st = euclidean_sq"
  shows "find_bmu st [v] = find_bmu st (replicate (input_dim st) v)"
    and "train_sample st [v] = train_sample st (replicate (input_dim st) v)"
proof -
  show fb: "find_bmu st [v] = find_bmu st (replicate (input_dim st) v)"
    using euclidean_sq_broadcast [OF assms(1)] assms(2) by (simp add: find_bmu_def)
  obtain o1 s1 where p: "find_bmu st (replicate (input_dim st) v) = (o1, s1)"
    by (cases "find_bmu st (replicate (input_dim st) v)") auto
  from find_bmu_keeps [OF p] have s1: "s1 = st" .
  show "train_sample st [v] = train_sample st (replicate (input_dim st) v)"
    unfolding train_sample_def fb p s1
    by (auto simp: update_weights_broadcast [OF assms(1)] split: sum.splits)
qed

text \<open>Columns of the reference beyond the dimension of the map are never read.\<close>

lemma column_take:
  "d < n \<Longrightarrow> column d (map (take n) rows) = column d rows"
  by (induction rows) (auto simp: column_def)

lemma count_embedded_cong:
  "\<forall>d\<in>set ds. feature_embedded r n d = feature_embedded r' n d \<Longrightarrow>
   count_embedded r n ds acc = count_embedded r' n ds acc"
  by (induction ds arbitrary: acc) (auto split: sum.splits)

lemma feature_embedded_take:
  assumes "d < n"
  shows "feature_embedded (map (take n) r) ws d = feature_embedded r ws d"
proof -
  have "column d (map (take n) r) = column d r" using assms by (rule column_take)
  moreover have "length (map (take n) r) = length r" by simp
  ultimately show ?thesis unfolding feature_embedded_def by (simp only:)
qed

lemma calc_convergence_take:
  "calc_convergence st data_ref significance =
   calc_convergence st (map (take (input_dim st)) data_ref) significance"
proof -
  have "\<forall>d\<in>set [0..<input_dim st].
      feature_embedded data_ref (weights st) d
      = feature_embedded (map (take (input_dim st)) data_ref) (weights st) d"
    by (simp add: feature_embedded_take)
  from count_embedded_cong [OF this] show ?thesis
    by (simp add: calc_convergence_def)
qed

text \<open>
  Claim C7, as the code has it. The class checks no shape itself; what fails is what
  torch's broadcasting rejects. For weights of \<open>D\<close> columns and an input whose length
  is neither \<open>D\<close> nor 1: \<open>update_weights\<close> raises, torch's shape error for a BMU
  index of the map and IndexError for another one, and leaves the map as it was;
  \<open>find_bmu\<close> with the default metric raises the shape error too when \<open>D\<close> is not
  1 and the map has a node; and the per-sample step of \<open>train\<close> raises with the map
  as it was, so no weight or coordinate is written. An input of the single entry
  \<open>v\<close> is broadcast: \<open>update_weights\<close>, and with the default metric
  \<open>find_bmu\<close> and the per-sample step, do what they do on the input that repeats
  \<open>v\<close> once per feature. For a reference whose rows all have the same length
  (numpy builds no array of two dimensions from others): columns beyond \<open>D\<close> are
  not read, \<open>calc_convergence\<close> does what it does on the reference cut to its first
  \<open>D\<close> columns; and a reference with a row and fewer than \<open>D\<close> columns makes
  \<open>calc_convergence\<close> raise IndexError with the map as it was.
\<close>

theorem dimension_mismatch:
  assumes "\<forall>w\<in>set (weights st). length w = input_dim st"
  shows "(length x \<noteq> input_dim st \<and> length x \<noteq> 1 \<longrightarrow>
            update_weights st bmu_idx x lr =
              (Inl (if bmu_idx < length (weights st) then RuntimeError else IndexError), st)
          \<and> (distance_metric st = euclidean_sq \<and> weights st \<noteq> [] \<and> input_dim st \<noteq> 1 \<longrightarrow>
               find_bmu st x = (Inl RuntimeError, st))
          \<and> (\<exists>e. train_sample st x = (Inl e, st)))
       \<and> update_weights st bmu_idx [v] lr =
           update_weights st bmu_idx (replicate (input_dim st) v) lr
       \<and> (distance_metric st = euclidean_sq \<longrightarrow>
            find_bmu st [v] = find_bmu st (replicate (input_dim st) v)
          \<and> train_sample st [v] = train_sample st (replicate (input_dim st) v))
       \<and> ((\<forall>r\<in>set data_ref. length r = k) \<longrightarrow>
            calc_convergence st data_ref significance =
              calc_convergence st (map (take (input_dim st)) data_ref) significance
          \<and> (data_ref \<noteq> [] \<and> k < input_dim st \<longrightarrow>
               calc_convergence st data_ref significance = (Inl IndexError, st)))"
proof -
  have a: "update_weights st bmu_idx x lr =
              (Inl (if bmu_idx < length (weights st) then RuntimeError else IndexError), st)"
    if h: "length x \<noteq> input_dim st \<and> length x \<noteq> 1"
  proof (cases "bmu_idx < length (weights st)")
    case True
    with assms h have "length x \<noteq> length (weights st ! bmu_idx)" by simp
    from update_weights_mismatch [OF True this] h True show ?thesis by simp
  next
    case False
    then show ?thesis by (simp add: update_weights_def)
  qed
  have b: "find_bmu st x = (Inl RuntimeError, st)"
    if h: "length x \<noteq> input_dim st \<and> length x \<noteq> 1"
      and m: "distance_metric st = euclidean_sq \<and> weights st \<noteq> [] \<and> input_dim st \<noteq> 1"
  proof -
    from assms h m have "euclidean_sq (weights st) x = Inl RuntimeError"
      by (intro euclidean_sq_mismatch [where n = "input_dim st"]) auto
    with m show ?thesis by (simp add: find_bmu_def)
  qed
  have c: "\<exists>e. train_sample st x = (Inl e, st)"
    if h: "length x \<noteq> input_dim st \<and> length x \<noteq> 1"
    using train_sample_mismatch [OF assms] h by blast
  have d: "calc_convergence st data_ref significance = (Inl IndexError, st)"
    if r: "\<forall>r\<in>set data_ref. length r = k" and s: "data_ref \<noteq> [] \<and> k < input_dim st"
  proof -
    from r s have h: "data_ref \<noteq> [] \<and> (\<forall>r\<in>set data_ref. length r = k) \<and> k < input_dim st"
      by simp
    from h obtain r where "r \<in> set data_ref" by (cases data_ref) auto
    with h have "\<exists>r\<in>set data_ref. length r < input_dim st" by auto
    then show ?thesis by (rule calc_convergence_short_row)
  qed
  from a b c d update_weights_broadcast [OF assms, of bmu_idx v lr]
    train_sample_broadcast [OF assms, of v]
    calc_convergence_take [of st data_ref significance]
  show ?thesis by blast
qed

text \<open>
  A run: for the map of two features, an input of three entries is rejected, the
  input \<open>[5]\<close> is taken as \<open>[5, 5]\<close>, a reference of three columns is read as
  its first two, and a reference of one column raises.
\<close>

theorem dimension_mismatch_witness:
  "length [1, 2, 3 :: real] \<noteq> input_dim wide_map
   \<and> length [1, 2, 3 :: real] \<noteq> 1
   \<and> update_weights wide_map 0 [1, 2, 3] 1 = (Inl RuntimeError, wide_map)
   \<and> find_bmu wide_map [1, 2, 3] = (Inl RuntimeError, wide_map)
   \<and> train_sample wide_map [1, 2, 3] = (Inl RuntimeError, wide_map)
   \<and> update_weights wide_map 1 [5] 1 = update_weights wide_map 1 [5, 5] 1
   \<and> find_bmu wide_map [5] = find_bmu wide_map [5, 5]
   \<and> calc_convergence wide_map [[0, 0, 7], [1, 1, 8]] 0.05 =
       calc_convergence wide_map [[0, 0], [1, 1]] 0.05
   \<and> calc_convergence wide_map [[0], [1]] 0.05 = (Inl IndexError, wide_map)"
proof -
  have h1: "\<forall>w\<in>set (weights wide_map). length w = input_dim wide_map"
    by (simp add: wide_map_def init_def)
  have h2: "length [1, 2, 3 :: real] \<noteq> input_dim wide_map"
    by (simp add: wide_map_def init_def)
  have h3: "length [1, 2, 3 :: real] \<noteq> 1" by simp
  have m: "distance_metric wide_map = euclidean_sq \<and> weights wide_map \<noteq> []
      \<and> input_dim wide_map \<noteq> 1 \<and> 0 < length (weights wide_map)"
    by (simp add: wide_map_def init_def)
  have d: "input_dim wide_map = 2" by (simp add: wide_map_def init_def)
  have r: "[[0 :: real], [1]] \<noteq> [] \<and> (\<forall>r\<in>set [[0 :: real], [1]]. length r = 1)
      \<and> 1 < input_dim wide_map"
    by (simp add: d)
  have r3: "\<forall>r\<in>set [[0, 0, 7 :: real], [1, 1, 8]]. length r = 3"
    by simp
  have t: "train_sample wide_map [1, 2, 3] = (Inl RuntimeError, wide_map)"
    by (simp add: wide_map_def init_def tensor_defs sample_defs)
  have rep: "replicate 2 (5 :: real) = [5, 5]"
    by (simp add: numeral_2_eq_2)
  from dimension_mismatch [OF h1, of "[1, 2, 3]" 0 1 5 "[[0], [1]]" 1 "0.05"]
    dimension_mismatch [OF h1, of "[1, 2, 3]" 1 1 5 "[[0, 0, 7], [1, 1, 8]]" 3 "0.05"]
    h2 h3 m r r3 t
  show ?thesis by (simp add: rep d)
qed

text \<open>
  Claim C7 as stated fails: the map of two features takes the input \<open>[5]\<close> of length
  1. \<open>find_bmu\<close> returns node 1 and \<open>update_weights\<close> with rate 1 writes the row
  \<open>[5, 5]\<close>, the input broadcast over both features, with no exception. And the map of
  one feature takes a reference sample of two columns: \<open>calc_convergence\<close> reads the
  first column only and returns 1.0.
\<close>

theorem dimension_mismatch_counterexample:
  "input_dim wide_map = 2
   \<and> find_bmu wide_map [5] = (Inr 1, wide_map)
   \<and> update_weights wide_map 1 [5] 1 = (Inr (), wide_map\<lparr>weights := [[0, 0], [5, 5]]\<rparr>)
   \<and> calc_convergence pair_map [[0, 7], [1, 8]] 0.05 = (Inr 1, pair_map\<lparr>last_cv := 1\<rparr>)"
  by (simp add: wide_map_def pair_map_def init_def tensor_defs sample_defs conv_defs float_defs
      power2_eq_square)

end
